theory Spec2Isabelle
  imports Complex_Main
begin

section \<open>Data model\<close>

text \<open>
  The geometry routines of \<^verbatim>\<open>src/base/iMgeometry.cc\<close> work on two-dimensional fields
  indexed by grid point \<open>(i, j)\<close>. A field is modelled as a total function on index
  pairs, so that the ghost points around the owned rectangle are part of it. A
  \<^verbatim>\<open>PetscScalar\<close> is modelled as a real number: rounding, infinities and NaN of the
  machine type are not represented.
\<close>

type_synonym 'a field2 = "int \<Rightarrow> int \<Rightarrow> 'a"

text \<open>
  Modelled from the spec: the enumeration \<^verbatim>\<open>PismMask\<close> is declared in \<^verbatim>\<open>Mask.hh\<close>,
  which is not among the sources. Section 3 of the specification lists its five
  states. The mask field stores the numeric code of an enumerator in a scalar and
  \<^verbatim>\<open>vMask.value(i,j)\<close> reads it back as an enumerator; the model stores the
  enumerator itself, so that \<^verbatim>\<open>mask[i][j] = MASK_SHEET\<close> followed by
  \<^verbatim>\<open>vMask.value(i,j)\<close> gives \<open>MASK_SHEET\<close>.
\<close>

datatype PismMask =
    MASK_UNKNOWN
  | MASK_SHEET
  | MASK_DRAGGING_SHEET
  | MASK_FLOATING
  | MASK_OCEAN_AT_TIME_0

text \<open>
  What the geometry routines use of declarations that are outside the sources is
  collected in one record and passed to every routine:
  \<^item> \<open>mask_value\<close>: the integer value of each enumerator (it appears in the threshold
    of the neighbour vote);
  \<^item> \<open>PismModMask\<close>: the integer code that \<^verbatim>\<open>PismModMask\<close> gives for a stored mask;
  \<^item> \<open>is_floating\<close>, \<open>is_grounded\<close>: the predicates of the mask field;
  \<^item> \<open>secpera\<close>, \<open>standard_gravity\<close>: physical constants;
  \<^item> \<open>diff_x\<close>, \<open>diff_y\<close>, \<open>diff_x_p\<close>, \<open>diff_y_p\<close>: the finite-difference
    operators of a scalar field (declared in \<^verbatim>\<open>iceModelVec.hh\<close>, defined elsewhere).
\<close>

record IceGrid =
  xs :: int
  xm :: int
  ys :: int
  ym :: int
  dx :: real
  dy :: real

record declarations =
  mask_value :: "PismMask \<Rightarrow> int"
  PismModMask :: "PismMask \<Rightarrow> int"
  is_floating :: "PismMask \<Rightarrow> bool"
  is_grounded :: "PismMask \<Rightarrow> bool"
  secpera :: real
  standard_gravity :: real
  diff_x :: "IceGrid \<Rightarrow> real field2 \<Rightarrow> int \<Rightarrow> int \<Rightarrow> real"
  diff_y :: "IceGrid \<Rightarrow> real field2 \<Rightarrow> int \<Rightarrow> int \<Rightarrow> real"
  diff_x_p :: "IceGrid \<Rightarrow> real field2 \<Rightarrow> int \<Rightarrow> int \<Rightarrow> real"
  diff_y_p :: "IceGrid \<Rightarrow> real field2 \<Rightarrow> int \<Rightarrow> int \<Rightarrow> real"

text \<open>The configuration flags and parameters read through \<^verbatim>\<open>config.get_flag\<close> and
  \<^verbatim>\<open>config.get\<close>.\<close>

record Config =
  is_dry_simulation :: bool
  do_plastic_till :: bool
  use_ssa_velocity :: bool
  ocean_kill :: bool
  floating_ice_killed :: bool
  include_bmr_in_continuity :: bool
  do_superpose :: bool
  compute_surf_grad_inward_ssa :: bool
  sea_water_density :: real

text \<open>
  The boundary models. A null pointer is \<open>None\<close>; a model that is present answers
  with the sea level, the shelf-base mass flux and the surface mass flux of the current
  step.
\<close>

record PISMOceanModel =
  sea_level_elevation :: real
  shelf_base_mass_flux :: "real field2"

record PISMSurfaceModel =
  ice_surface_mass_flux :: "real field2"

text \<open>The members of \<^verbatim>\<open>IceModel\<close> that the three routines read or write.\<close>

record IceModel =
  grid :: IceGrid
  config :: Config
  ice_rho :: real
  ice_exponent :: real
  transformForSurfaceGradient :: bool
  computeSIAVelocities :: bool
  dt :: real
  ocean :: "PISMOceanModel option"
  surface :: "PISMSurfaceModel option"
  vh :: "real field2"
  vH :: "real field2"
  vbed :: "real field2"
  vMask :: "PismMask field2"
  vuvbar0 :: "real field2"
  vuvbar1 :: "real field2"
  vub :: "real field2"
  vvb :: "real field2"
  vubarSSA :: "real field2"
  vvbarSSA :: "real field2"
  vbasalMeltRate :: "real field2"

datatype error =
    OCEAN_NULL
  | SURFACE_NULL
  | THICKNESS_NEGATIVE int int

section \<open>Grid loops and ghost communication\<close>

definition owned :: "IceGrid \<Rightarrow> int \<Rightarrow> int \<Rightarrow> bool" where
  "owned g i j \<longleftrightarrow> xs g \<le> i \<and> i < xs g + xm g \<and> ys g \<le> j \<and> j < ys g + ym g"

text \<open>The cells in the order in which the nested \<^verbatim>\<open>for\<close> loops visit them:
  \<open>i\<close> outermost, \<open>j\<close> innermost.\<close>

definition owned_cells :: "IceGrid \<Rightarrow> (int \<times> int) list" where
  "owned_cells g =
     concat (map (\<lambda>i. map (\<lambda>j. (i, j)) [ys g..ys g + ym g - 1]) [xs g..xs g + xm g - 1])"

text \<open>The assignment \<^verbatim>\<open>f[i][j] = v\<close>.\<close>

definition set2 :: "'a field2 \<Rightarrow> int \<Rightarrow> int \<Rightarrow> 'a \<Rightarrow> 'a field2" where
  "set2 f i j v = (\<lambda>i' j'. if i' = i \<and> j' = j then v else f i' j')"

text \<open>A loop over cells whose body may end the routine with an error
  (\<^verbatim>\<open>SETERRQ\<close> returns at once; the remaining cells are not visited).\<close>

fun cell_loop ::
  "('s \<Rightarrow> int \<Rightarrow> int \<Rightarrow> error + 's) \<Rightarrow> (int \<times> int) list \<Rightarrow> 's \<Rightarrow> error + 's" where
  "cell_loop body [] s = Inr s"
| "cell_loop body (c # cs) s =
     (case body s (fst c) (snd c) of
        Inl e \<Rightarrow> Inl e
      | Inr s' \<Rightarrow> cell_loop body cs s')"

text \<open>
  \<^verbatim>\<open>beginGhostComm\<close>/\<^verbatim>\<open>endGhostComm\<close>: owned values stay, every ghost point takes the
  value that the neighbouring process sends. What arrives is an input of the model
  (\<open>incoming\<close>).
\<close>

definition ghostComm :: "IceGrid \<Rightarrow> 'a field2 \<Rightarrow> 'a field2 \<Rightarrow> 'a field2" where
  "ghostComm g incoming f = (\<lambda>i j. if owned g i j then f i j else incoming i j)"

section \<open>updateSurfaceElevationAndMask\<close>

definition hgrounded :: "IceModel \<Rightarrow> int \<Rightarrow> int \<Rightarrow> real" where
  "hgrounded m i j = vbed m i j + vH m i j"

text \<open>If \<^verbatim>\<open>ocean_rho\<close> is zero the quotient is \<open>0\<close> here, where the machine gives an
  infinity or NaN.\<close>

definition hfloating :: "IceModel \<Rightarrow> real \<Rightarrow> int \<Rightarrow> int \<Rightarrow> real" where
  "hfloating m currentSeaLevel i j =
     currentSeaLevel + (1 - ice_rho m / sea_water_density (config m)) * vH m i j"

definition neighmasksum :: "declarations \<Rightarrow> PismMask field2 \<Rightarrow> int \<Rightarrow> int \<Rightarrow> int" where
  "neighmasksum D msk i j =
     PismModMask D (msk (i - 1) (j + 1)) + PismModMask D (msk i (j + 1))
       + PismModMask D (msk (i + 1) (j + 1))
     + PismModMask D (msk (i - 1) j) + PismModMask D (msk (i + 1) j)
     + PismModMask D (msk (i - 1) (j - 1)) + PismModMask D (msk i (j - 1))
       + PismModMask D (msk (i + 1) (j - 1))"

text \<open>Lines 207--222: the vote by neighbours for a cell that is \<open>MASK_UNKNOWN\<close>.\<close>

definition resolve_unknown :: "declarations \<Rightarrow> IceModel \<Rightarrow> int \<Rightarrow> int \<Rightarrow> IceModel" where
  "resolve_unknown D m i j =
     (if vMask m i j = MASK_UNKNOWN then
        (if real_of_int (neighmasksum D (vMask m) i j)
              \<le> real_of_int (7 * mask_value D MASK_SHEET + mask_value D MASK_DRAGGING_SHEET)
                  + 0.1
         then m\<lparr>vMask := set2 (vMask m) i j MASK_SHEET\<rparr>
         else m\<lparr>vMask := set2 (vMask m) i j MASK_DRAGGING_SHEET\<rparr>)
      else m)"

text \<open>Lines 169--202: the flotation criterion with hysteresis.\<close>

definition flotation :: "declarations \<Rightarrow> real \<Rightarrow> IceModel \<Rightarrow> int \<Rightarrow> int \<Rightarrow> IceModel" where
  "flotation D currentSeaLevel m i j =
     (let hg = hgrounded m i j; hf = hfloating m currentSeaLevel i j in
      if is_floating D (vMask m i j) then
        (if hg > hf + 1.0 then
           (if use_ssa_velocity (config m) then
              (if do_plastic_till (config m)
               then m\<lparr>vh := set2 (vh m) i j hg,
                      vMask := set2 (vMask m) i j MASK_DRAGGING_SHEET\<rparr>
               else m\<lparr>vh := set2 (vh m) i j hg,
                      vMask := set2 (vMask m) i j MASK_UNKNOWN\<rparr>)
            else m\<lparr>vh := set2 (vh m) i j hg, vMask := set2 (vMask m) i j MASK_SHEET\<rparr>)
         else m\<lparr>vh := set2 (vh m) i j hf\<rparr>)
      else
        (if hg > hf - 1.0 then
           (if use_ssa_velocity (config m) \<and> do_plastic_till (config m)
            then m\<lparr>vh := set2 (vh m) i j hg,
                   vMask := set2 (vMask m) i j MASK_DRAGGING_SHEET\<rparr>
            else m\<lparr>vh := set2 (vh m) i j hg\<rparr>)
         else m\<lparr>vh := set2 (vh m) i j hf, vMask := set2 (vMask m) i j MASK_FLOATING\<rparr>))"

text \<open>Lines 147--226: the body of the loop for the cell \<open>(i, j)\<close>.\<close>

definition update_cell ::
  "declarations \<Rightarrow> real \<Rightarrow> IceModel \<Rightarrow> int \<Rightarrow> int \<Rightarrow> error + IceModel" where
  "update_cell D currentSeaLevel m i j =
     (if vH m i j < 0 then Inl (THICKNESS_NEGATIVE i j)
      else if is_dry_simulation (config m) then
        Inr (m\<lparr>vh := set2 (vh m) i j (hgrounded m i j)\<rparr>)
      else if vMask m i j = MASK_OCEAN_AT_TIME_0 then
        Inr (m\<lparr>vh := set2 (vh m) i j (hfloating m currentSeaLevel i j)\<rparr>)
      else Inr (resolve_unknown D (flotation D currentSeaLevel m i j) i j))"

text \<open>
  The routine. The return codes of the PETSc array accessors, of the ghost
  communication and of the ocean model's own method are taken to be success; the two
  \<^verbatim>\<open>SETERRQ\<close> exits of the routine are the \<open>Inl\<close> results. On an error the caller
  aborts the run, so no model is returned.
\<close>

definition updateSurfaceElevationAndMask ::
  "declarations \<Rightarrow> real field2 \<Rightarrow> PismMask field2 \<Rightarrow> IceModel \<Rightarrow> error + IceModel" where
  "updateSurfaceElevationAndMask D incoming_h incoming_mask m =
     (case ocean m of
        None \<Rightarrow> Inl OCEAN_NULL
      | Some oc \<Rightarrow>
          (case cell_loop (update_cell D (sea_level_elevation oc)) (owned_cells (grid m)) m of
             Inl e \<Rightarrow> Inl e
           | Inr m' \<Rightarrow>
               Inr (m'\<lparr>vh := ghostComm (grid m) incoming_h (vh m'),
                       vMask := ghostComm (grid m) incoming_mask (vMask m')\<rparr>)))"

section \<open>massContExplicitStep\<close>

text \<open>\<^verbatim>\<open>PetscSqr\<close> is the square of its argument.\<close>

definition PetscSqr :: "real \<Rightarrow> real" where
  "PetscSqr x = x * x"

text \<open>\<^verbatim>\<open>1.0e-4 * PetscSqr(secpera)\<close>\<close>

definition inC_fofv :: "declarations \<Rightarrow> real" where
  "inC_fofv D = (1 / 10000) * PetscSqr (secpera D)"

text \<open>
  Modelled from the spec: the constant \<^verbatim>\<open>pi\<close> is declared outside the sources. The
  specification writes the blend factor as \<open>1 - (2/\<pi>) atan(c |v|\<^sup>2)\<close>, so the
  constant is the number \<open>\<pi>\<close>.
\<close>

definition outC_fofv :: real where
  "outC_fofv = 2.0 / pi"

text \<open>Lines 338--347: the factor \<open>f(v)\<close> at a point with SSA velocity \<open>(u, v)\<close>.\<close>

definition fofv :: "declarations \<Rightarrow> real \<Rightarrow> real \<Rightarrow> real" where
  "fofv D u v = 1.0 - outC_fofv * arctan (inC_fofv D * (PetscSqr u + PetscSqr v))"

definition fv_at :: "declarations \<Rightarrow> IceModel \<Rightarrow> int \<Rightarrow> int \<Rightarrow> real" where
  "fv_at D m i j = fofv D (vubarSSA m i j) (vvbarSSA m i j)"

text \<open>Lines 335--358: the thickness on the staggered grid, as \<open>(He, Hw, Hn, Hs)\<close>.\<close>

definition staggered_thickness ::
  "declarations \<Rightarrow> IceModel \<Rightarrow> int \<Rightarrow> int \<Rightarrow> real \<times> real \<times> real \<times> real" where
  "staggered_thickness D m i j =
     (if do_superpose (config m) \<and> vMask m i j = MASK_DRAGGING_SHEET then
        (let fvH = fv_at D m i j * vH m i j in
         (0.5 * (fvH + fv_at D m (i + 1) j * vH m (i + 1) j),
          0.5 * (fv_at D m (i - 1) j * vH m (i - 1) j + fvH),
          0.5 * (fvH + fv_at D m i (j + 1) * vH m i (j + 1)),
          0.5 * (fv_at D m i (j - 1) * vH m i (j - 1) + fvH)))
      else
        (0.5 * (vH m i j + vH m (i + 1) j),
         0.5 * (vH m (i - 1) j + vH m i j),
         0.5 * (vH m i j + vH m i (j + 1)),
         0.5 * (vH m i (j - 1) + vH m i j)))"

text \<open>Lines 362--366: the divergence of the SIA flux on the staggered grid.\<close>

definition divQ_SIA :: "declarations \<Rightarrow> IceModel \<Rightarrow> int \<Rightarrow> int \<Rightarrow> real" where
  "divQ_SIA D m i j =
     (if computeSIAVelocities m then
        (case staggered_thickness D m i j of
           (He, Hw, Hn, Hs) \<Rightarrow>
             (vuvbar0 m i j * He - vuvbar0 m (i - 1) j * Hw) / dx (grid m)
             + (vuvbar1 m i j * Hn - vuvbar1 m i (j - 1) * Hs) / dy (grid m))
      else 0.0)"

text \<open>Lines 370--376: the basal sliding part, upwinded term and dilation term.\<close>

definition divQ_sliding :: "IceModel \<Rightarrow> int \<Rightarrow> int \<Rightarrow> real" where
  "divQ_sliding m i j =
     (vub m i j * (if vub m i j < 0 then vH m (i + 1) j - vH m i j
                   else vH m i j - vH m (i - 1) j) / dx (grid m)
      + vvb m i j * (if vvb m i j < 0 then vH m i (j + 1) - vH m i j
                     else vH m i j - vH m i (j - 1)) / dy (grid m))
     + vH m i j * ((vub m (i + 1) j - vub m (i - 1) j) / (2.0 * dx (grid m))
                   + (vvb m i (j + 1) - vvb m i (j - 1)) / (2.0 * dy (grid m)))"

definition divQ :: "declarations \<Rightarrow> IceModel \<Rightarrow> int \<Rightarrow> int \<Rightarrow> real" where
  "divQ D m i j = divQ_SIA D m i j + divQ_sliding m i j"

text \<open>Lines 378--403: the new thickness of the cell, from the value \<open>Hnew0\<close> that
  \<^verbatim>\<open>vHnew\<close> holds there when the loop reaches it.\<close>

definition massCont_cell ::
  "declarations \<Rightarrow> IceModel \<Rightarrow> real field2 \<Rightarrow> real field2 \<Rightarrow> real \<Rightarrow> int \<Rightarrow> int \<Rightarrow> real" where
  "massCont_cell D m acab shelfbmassflux Hnew0 i j =
     (let H1 = Hnew0 + (acab i j - divQ D m i j) * dt m;
          H2 = (if include_bmr_in_continuity (config m) then
                  (if is_floating D (vMask m i j) then H1 - shelfbmassflux i j * dt m
                   else H1 - vbasalMeltRate m i j * dt m)
                else H1);
          H3 = (if H2 < 0 then 0.0 else H2);
          H4 = (if ocean_kill (config m) \<and> vMask m i j = MASK_OCEAN_AT_TIME_0 then 0.0 else H3);
          H5 = (if floating_ice_killed (config m) \<and> is_floating D (vMask m i j) then 0.0 else H4)
      in H5)"

definition massCont_body ::
  "declarations \<Rightarrow> IceModel \<Rightarrow> real field2 \<Rightarrow> real field2
     \<Rightarrow> real field2 \<Rightarrow> int \<Rightarrow> int \<Rightarrow> error + real field2" where
  "massCont_body D m acab shelfbmassflux vHnew i j =
     Inr (set2 vHnew i j (massCont_cell D m acab shelfbmassflux (vHnew i j) i j))"

text \<open>
  The routine. \<^verbatim>\<open>vHnew\<close> starts as a copy of \<^verbatim>\<open>vH\<close>, the loop fills its owned cells
  while reading the old \<^verbatim>\<open>vH\<close>, and the ghost communication copies it back into
  \<^verbatim>\<open>vH\<close>. The diagnostic quantities derived from the result (\<^verbatim>\<open>vdHdt\<close>,
  \<^verbatim>\<open>gdHdtav\<close>, \<^verbatim>\<open>dvoldt\<close>, the count of ice-covered cells) are never read back by
  the three routines and are not part of the model; \<^verbatim>\<open>check_maximum_thickness\<close>
  touches the vertical grid only. As before, the return codes of the PETSc calls and of
  the boundary models' methods are taken to be success; the two \<^verbatim>\<open>SETERRQ\<close> exits
  for a missing surface or ocean model are the \<open>Inl\<close> results.
\<close>

definition massContExplicitStep ::
  "declarations \<Rightarrow> real field2 \<Rightarrow> IceModel \<Rightarrow> error + IceModel" where
  "massContExplicitStep D incoming_H m =
     (case surface m of
        None \<Rightarrow> Inl SURFACE_NULL
      | Some sf \<Rightarrow>
          (case ocean m of
             None \<Rightarrow> Inl OCEAN_NULL
           | Some oc \<Rightarrow>
               (case cell_loop
                       (massCont_body D m (ice_surface_mass_flux sf) (shelf_base_mass_flux oc))
                       (owned_cells (grid m)) (vH m) of
                  Inl e \<Rightarrow> Inl e
                | Inr vHnew \<Rightarrow> Inr (m\<lparr>vH := ghostComm (grid m) incoming_H vHnew\<rparr>))))"

text \<open>
  The claim about the sliding contribution is compared with the following three terms,
  written from the specification's words: the advective term takes the thickness
  difference towards \<open>i + 1\<close> when the velocity is negative and towards \<open>i - 1\<close>
  otherwise (likewise in \<open>y\<close>), the dilation term is the local thickness times the
  centred divergence of the velocity.
\<close>

definition advection_x_spec :: "IceModel \<Rightarrow> int \<Rightarrow> int \<Rightarrow> real" where
  "advection_x_spec m i j =
     (if vub m i j < 0 then vub m i j * (vH m (i + 1) j - vH m i j) / dx (grid m)
      else vub m i j * (vH m i j - vH m (i - 1) j) / dx (grid m))"

definition advection_y_spec :: "IceModel \<Rightarrow> int \<Rightarrow> int \<Rightarrow> real" where
  "advection_y_spec m i j =
     (if vvb m i j < 0 then vvb m i j * (vH m i (j + 1) - vH m i j) / dy (grid m)
      else vvb m i j * (vH m i j - vH m i (j - 1)) / dy (grid m))"

definition dilation_spec :: "IceModel \<Rightarrow> int \<Rightarrow> int \<Rightarrow> real" where
  "dilation_spec m i j =
     vH m i j * ((vub m (i + 1) j - vub m (i - 1) j) / (2 * dx (grid m))
                 + (vvb m i (j + 1) - vvb m i (j - 1)) / (2 * dy (grid m)))"

text \<open>The upstream neighbour of a cell: the one that the velocity points away from.\<close>

definition upstream_x :: "IceModel \<Rightarrow> int \<Rightarrow> int \<Rightarrow> int" where
  "upstream_x m i j = (if vub m i j < 0 then i + 1 else i - 1)"

definition upstream_y :: "IceModel \<Rightarrow> int \<Rightarrow> int \<Rightarrow> int" where
  "upstream_y m i j = (if vvb m i j < 0 then j + 1 else j - 1)"

section \<open>computeDrivingStress\<close>

text \<open>
  \<^verbatim>\<open>pow\<close> of the C library on real numbers. The two agree for a non-negative base;
  for a negative base and a fractional exponent the library gives NaN, which the model
  does not represent.
\<close>

definition pow :: "real \<Rightarrow> real \<Rightarrow> real" where
  "pow x y = x powr y"

text \<open>Lines 70--94: the surface gradient \<open>(h_x, h_y)\<close> at a cell with positive
  pressure.\<close>

definition surface_gradient :: "declarations \<Rightarrow> IceModel \<Rightarrow> int \<Rightarrow> int \<Rightarrow> real \<times> real" where
  "surface_gradient D m i j =
     (let n = ice_exponent m;
          etapow = (2.0 * n + 2.0) / n;
          invpow = 1.0 / etapow;
          dinvpow = (- n - 2.0) / (2.0 * n + 2.0);
          minThickEtaTransform = 5.0
      in
      if is_grounded D (vMask m i j) \<and> transformForSurfaceGradient m then
        (let eta_part =
           (if vH m i j > 0.0 then
              (let myH = (if vH m i j < minThickEtaTransform then minThickEtaTransform
                          else vH m i j);
                   eta = pow myH etapow;
                   factor = invpow * pow eta dinvpow
               in (factor * (pow (vH m (i + 1) j) etapow - pow (vH m (i - 1) j) etapow)
                     / (2 * dx (grid m)),
                   factor * (pow (vH m i (j + 1)) etapow - pow (vH m i (j - 1)) etapow)
                     / (2 * dy (grid m))))
            else (0.0, 0.0))
         in (fst eta_part + diff_x D (grid m) (vbed m) i j,
             snd eta_part + diff_y D (grid m) (vbed m) i j))
      else if compute_surf_grad_inward_ssa (config m) then
        (diff_x_p D (grid m) (vh m) i j, diff_y_p D (grid m) (vh m) i j)
      else
        (diff_x D (grid m) (vh m) i j, diff_y D (grid m) (vh m) i j))"

text \<open>Lines 65--98: the two components of the driving stress at the cell.\<close>

definition drivingStress_cell :: "declarations \<Rightarrow> IceModel \<Rightarrow> int \<Rightarrow> int \<Rightarrow> real \<times> real" where
  "drivingStress_cell D m i j =
     (let pressure = ice_rho m * standard_gravity D * vH m i j in
      if pressure \<le> 0.0 then (0.0, 0.0)
      else (- pressure * fst (surface_gradient D m i j),
            - pressure * snd (surface_gradient D m i j)))"

definition drivingStress_body ::
  "declarations \<Rightarrow> IceModel \<Rightarrow> real field2 \<times> real field2 \<Rightarrow> int \<Rightarrow> int
     \<Rightarrow> error + real field2 \<times> real field2" where
  "drivingStress_body D m taud i j =
     Inr (set2 (fst taud) i j (fst (drivingStress_cell D m i j)),
          set2 (snd taud) i j (snd (drivingStress_cell D m i j)))"

text \<open>The routine writes into the two fields that the caller supplies and does not
  communicate ghosts.\<close>

definition computeDrivingStress ::
  "declarations \<Rightarrow> IceModel \<Rightarrow> real field2 \<Rightarrow> real field2
     \<Rightarrow> error + real field2 \<times> real field2" where
  "computeDrivingStress D m vtaudx vtaudy =
     cell_loop (drivingStress_body D m) (owned_cells (grid m)) (vtaudx, vtaudy)"

section \<open>Sequences of calls\<close>

text \<open>
  \<open>evolves D m0 m\<close>: the model \<open>m\<close> is reached from \<open>m0\<close> by any number of calls of
  the two routines that write geometry. Between two calls the rest of the program may
  change everything (configuration, sea level, bed, velocities, thickness) except the
  mask and the grid; the values arriving at the ghost points are arbitrary.
\<close>

inductive evolves :: "declarations \<Rightarrow> IceModel \<Rightarrow> IceModel \<Rightarrow> bool"
  for D :: declarations and m0 :: IceModel where
  start: "evolves D m0 m0"
| geometry_update:
    "evolves D m0 m1 \<Longrightarrow> vMask m1' = vMask m1 \<Longrightarrow> grid m1' = grid m1
     \<Longrightarrow> updateSurfaceElevationAndMask D incoming_h incoming_mask m1' = Inr m2
     \<Longrightarrow> evolves D m0 m2"
| mass_continuity:
    "evolves D m0 m1 \<Longrightarrow> vMask m1' = vMask m1 \<Longrightarrow> grid m1' = grid m1
     \<Longrightarrow> massContExplicitStep D incoming_H m1' = Inr m2
     \<Longrightarrow> evolves D m0 m2"

section \<open>Concrete inputs\<close>

text \<open>
  An instance of the outside declarations, for running the routines on concrete inputs:
  the enumerators are numbered \<open>-1, 1, 2, 3, 7\<close>, \<open>PismModMask\<close> reduces a code above
  that of \<open>MASK_FLOATING\<close> by four, and the finite differences are centred. The
  general theorems hold for every value of the declarations; this instance only serves
  the concrete runs.
\<close>

definition example_mask_value :: "PismMask \<Rightarrow> int" where
  "example_mask_value k =
     (case k of MASK_UNKNOWN \<Rightarrow> - 1 | MASK_SHEET \<Rightarrow> 1 | MASK_DRAGGING_SHEET \<Rightarrow> 2
      | MASK_FLOATING \<Rightarrow> 3 | MASK_OCEAN_AT_TIME_0 \<Rightarrow> 7)"

definition example_declarations :: declarations where
  "example_declarations =
     \<lparr> mask_value = example_mask_value,
       PismModMask = (\<lambda>k. if example_mask_value k > 3 then example_mask_value k - 4
                           else example_mask_value k),
       is_floating = (\<lambda>k. k = MASK_FLOATING \<or> k = MASK_OCEAN_AT_TIME_0),
       is_grounded = (\<lambda>k. k = MASK_SHEET \<or> k = MASK_DRAGGING_SHEET),
       secpera = 31556926,
       standard_gravity = 981 / 100,
       diff_x = (\<lambda>g f i j. (f (i + 1) j - f (i - 1) j) / (2 * dx g)),
       diff_y = (\<lambda>g f i j. (f i (j + 1) - f i (j - 1)) / (2 * dy g)),
       diff_x_p = (\<lambda>g f i j. (f (i + 1) j - f (i - 1) j) / (2 * dx g)),
       diff_y_p = (\<lambda>g f i j. (f i (j + 1) - f i (j - 1)) / (2 * dy g)) \<rparr>"

text \<open>
  The first scenario of the specification: one owned cell \<open>(0, 0)\<close>, flat bed at
  elevation \<open>0\<close>, sea level \<open>0\<close>, thickness \<open>100\<close> everywhere, mask \<open>MASK_SHEET\<close>
  everywhere, no velocities, no SIA flux, surface mass balance \<open>0.01\<close>, \<open>dt = 1\<close>,
  density ratio \<open>0.92\<close>.
\<close>

definition example_config :: Config where
  "example_config =
     \<lparr> is_dry_simulation = False, do_plastic_till = False, use_ssa_velocity = False,
       ocean_kill = False, floating_ice_killed = False, include_bmr_in_continuity = False,
       do_superpose = False, compute_surf_grad_inward_ssa = False,
       sea_water_density = 1000 \<rparr>"

definition example_model :: IceModel where
  "example_model =
     \<lparr> grid = \<lparr> xs = 0, xm = 1, ys = 0, ym = 1, dx = 1, dy = 1 \<rparr>,
       config = example_config,
       ice_rho = 920,
       ice_exponent = 3,
       transformForSurfaceGradient = False,
       computeSIAVelocities = True,
       dt = 1,
       ocean = Some \<lparr> sea_level_elevation = 0, shelf_base_mass_flux = (\<lambda>i j. 0) \<rparr>,
       surface = Some \<lparr> ice_surface_mass_flux = (\<lambda>i j. 1 / 100) \<rparr>,
       vh = (\<lambda>i j. 100),
       vH = (\<lambda>i j. 100),
       vbed = (\<lambda>i j. 0),
       vMask = (\<lambda>i j. MASK_SHEET),
       vuvbar0 = (\<lambda>i j. 0),
       vuvbar1 = (\<lambda>i j. 0),
       vub = (\<lambda>i j. 0),
       vvb = (\<lambda>i j. 0),
       vubarSSA = (\<lambda>i j. 0),
       vvbarSSA = (\<lambda>i j. 0),
       vbasalMeltRate = (\<lambda>i j. 0) \<rparr>"

text \<open>The second scenario: thickness \<open>50\<close> over a bed at \<open>-500\<close>, with the mask
  given.\<close>

definition example_shelf :: "PismMask \<Rightarrow> IceModel" where
  "example_shelf k = example_model\<lparr>vH := (\<lambda>i j. 50), vbed := (\<lambda>i j. - 500), vMask := (\<lambda>i j. k)\<rparr>"

section \<open>Properties\<close>


subsection \<open>Loops over the owned cells\<close>

lemma set2_same: "set2 f i j v i j = v"
  by (simp add: set2_def)

lemma cell_loop_append:
  "cell_loop body (pre @ post) s =
     (case cell_loop body pre s of Inl e \<Rightarrow> Inl e | Inr s1 \<Rightarrow> cell_loop body post s1)"
  by (induction pre arbitrary: s) (auto split: sum.splits)

lemma cell_loop_invariant:
  assumes "cell_loop body cs s = Inr s'" and "P s"
    and "\<And>t c t'. c \<in> set cs \<Longrightarrow> P t \<Longrightarrow> body t (fst c) (snd c) = Inr t' \<Longrightarrow> P t'"
  shows "P s'"
  using assms
proof (induction cs arbitrary: s)
  case Nil
  then show ?case by simp
next
  case (Cons c cs)
  from Cons.prems(1) obtain t where t: "body s (fst c) (snd c) = Inr t" "cell_loop body cs t = Inr s'"
    by (auto split: sum.splits)
  have "P t" using Cons.prems(2,3) t(1) by (meson list.set_intros(1))
  then show ?case using Cons.IH[OF t(2)] Cons.prems(3) by (meson list.set_intros(2))
qed

lemma owned_cells_product:
  "owned_cells g = List.product [xs g..xs g + xm g - 1] [ys g..ys g + ym g - 1]"
  by (simp add: owned_cells_def product_concat_map)

lemma distinct_owned_cells: "distinct (owned_cells g)"
  by (simp add: owned_cells_product distinct_product)

lemma set_owned_cells: "(i, j) \<in> set (owned_cells g) \<longleftrightarrow> owned g i j"
  by (auto simp: owned_cells_product owned_def)


subsection \<open>The loop of massContExplicitStep in closed form\<close>

lemma massCont_loop_eq:
  "distinct cs \<Longrightarrow>
   cell_loop (massCont_body D m a s) cs H0 =
     Inr (\<lambda>i j. if (i, j) \<in> set cs then massCont_cell D m a s (H0 i j) i j else H0 i j)"
proof (induction cs arbitrary: H0)
  case Nil
  then show ?case by simp
next
  case (Cons c cs)
  obtain ci cj where c: "c = (ci, cj)" by (cases c)
  have d: "distinct cs" and n: "(ci, cj) \<notin> set cs" using Cons.prems c by auto
  define H1 where "H1 = set2 H0 ci cj (massCont_cell D m a s (H0 ci cj) ci cj)"
  have "cell_loop (massCont_body D m a s) (c # cs) H0 = cell_loop (massCont_body D m a s) cs H1"
    by (simp add: c massCont_body_def H1_def)
  also have "\<dots> = Inr (\<lambda>i j. if (i, j) \<in> set cs then massCont_cell D m a s (H1 i j) i j else H1 i j)"
    by (rule Cons.IH[OF d])
  also have "(\<lambda>i j. if (i, j) \<in> set cs then massCont_cell D m a s (H1 i j) i j else H1 i j)
      = (\<lambda>i j. if (i, j) \<in> set (c # cs) then massCont_cell D m a s (H0 i j) i j else H0 i j)"
    using n by (auto simp: fun_eq_iff H1_def set2_def c)
  finally show ?case .
qed

lemma massContExplicitStep_eq:
  assumes "surface m = Some sf" and "ocean m = Some oc"
  shows "massContExplicitStep D incoming_H m =
     Inr (m\<lparr>vH := \<lambda>i j. if owned (grid m) i j
                 then massCont_cell D m (ice_surface_mass_flux sf) (shelf_base_mass_flux oc)
                        (vH m i j) i j
                 else incoming_H i j\<rparr>)"
  using assms
  by (simp add: massContExplicitStep_def massCont_loop_eq[OF distinct_owned_cells]
      ghostComm_def set_owned_cells cong: if_cong)

lemma massContExplicitStep_Inr:
  assumes "massContExplicitStep D incoming_H m = Inr m'"
  obtains sf oc where "surface m = Some sf" and "ocean m = Some oc"
  using assms by (auto simp: massContExplicitStep_def split: option.splits)

lemma massCont_cell_nonneg: "0 \<le> massCont_cell D m a s h i j"
  by (simp add: massCont_cell_def Let_def)


subsection \<open>The loop of updateSurfaceElevationAndMask\<close>

text \<open>The body fails only on a negative thickness, writes only the surface and the mask,
  and only at its own cell.\<close>

lemma update_cell_Inl:
  "update_cell D sl m i j = Inl e \<longleftrightarrow> vH m i j < 0 \<and> e = THICKNESS_NEGATIVE i j"
  by (auto simp: update_cell_def)

lemma update_cell_inputs:
  assumes "update_cell D sl m i j = Inr m'"
  shows "vH m' = vH m \<and> vbed m' = vbed m \<and> config m' = config m \<and> ice_rho m' = ice_rho m
         \<and> grid m' = grid m \<and> ocean m' = ocean m \<and> surface m' = surface m"
  using assms
  by (auto simp: update_cell_def flotation_def resolve_unknown_def Let_def split: if_splits)

lemma update_cell_other:
  assumes "update_cell D sl m i j = Inr m'" and "(i', j') \<noteq> (i, j)"
  shows "vMask m' i' j' = vMask m i' j' \<and> vh m' i' j' = vh m i' j'"
  using assms
  by (auto simp: update_cell_def flotation_def resolve_unknown_def Let_def set2_def split: if_splits)


lemma update_loop_inputs:
  assumes "cell_loop (update_cell D sl) cs m = Inr m'"
  shows "vH m' = vH m \<and> vbed m' = vbed m \<and> config m' = config m \<and> ice_rho m' = ice_rho m
         \<and> grid m' = grid m \<and> ocean m' = ocean m \<and> surface m' = surface m"
proof (rule cell_loop_invariant[OF assms,
      where P = "\<lambda>t. vH t = vH m \<and> vbed t = vbed m \<and> config t = config m
                  \<and> ice_rho t = ice_rho m \<and> grid t = grid m \<and> ocean t = ocean m
                  \<and> surface t = surface m"])
  show "vH m = vH m \<and> vbed m = vbed m \<and> config m = config m
                  \<and> ice_rho m = ice_rho m \<and> grid m = grid m \<and> ocean m = ocean m
                  \<and> surface m = surface m" by simp
next
  fix t c t'
  assume P: "vH t = vH m \<and> vbed t = vbed m \<and> config t = config m
                  \<and> ice_rho t = ice_rho m \<and> grid t = grid m \<and> ocean t = ocean m
                  \<and> surface t = surface m"
    and b: "update_cell D sl t (fst c) (snd c) = Inr t'"
  from update_cell_inputs[OF b] P
  show "vH t' = vH m \<and> vbed t' = vbed m \<and> config t' = config m
                  \<and> ice_rho t' = ice_rho m \<and> grid t' = grid m \<and> ocean t' = ocean m
                  \<and> surface t' = surface m" by simp
qed

lemma update_loop_untouched:
  assumes "cell_loop (update_cell D sl) cs m = Inr m'" and "(i, j) \<notin> set cs"
  shows "vMask m' i j = vMask m i j \<and> vh m' i j = vh m i j"
proof (rule cell_loop_invariant[OF assms(1),
      where P = "\<lambda>t. vMask t i j = vMask m i j \<and> vh t i j = vh m i j"])
  show "vMask m i j = vMask m i j \<and> vh m i j = vh m i j" by simp
next
  fix t c t'
  assume c: "c \<in> set cs" and P: "vMask t i j = vMask m i j \<and> vh t i j = vh m i j"
    and b: "update_cell D sl t (fst c) (snd c) = Inr t'"
  from c assms(2) have "(i, j) \<noteq> (fst c, snd c)" by auto
  from update_cell_other[OF b this] P
  show "vMask t' i j = vMask m i j \<and> vh t' i j = vh m i j" by simp
qed

lemma update_loop_Inr_nonneg:
  "cell_loop (update_cell D sl) cs m = Inr m' \<Longrightarrow> (i, j) \<in> set cs \<Longrightarrow> 0 \<le> vH m i j"
proof (induction cs arbitrary: m)
  case Nil
  then show ?case by simp
next
  case (Cons c cs)
  from Cons.prems(1) obtain t where t: "update_cell D sl m (fst c) (snd c) = Inr t"
    "cell_loop (update_cell D sl) cs t = Inr m'"
    by (auto split: sum.splits)
  have H: "vH t = vH m" using update_cell_inputs[OF t(1)] by simp
  show ?case
  proof (cases "(i, j) = c")
    case True
    then show ?thesis using t(1) by (auto simp: update_cell_def split: if_splits)
  next
    case False
    then have "(i, j) \<in> set cs" using Cons.prems(2) by auto
    from Cons.IH[OF t(2) this] H show ?thesis by simp
  qed
qed

lemma update_loop_Inl:
  "cell_loop (update_cell D sl) cs m = Inl e \<Longrightarrow>
     \<exists>i j. (i, j) \<in> set cs \<and> vH m i j < 0 \<and> e = THICKNESS_NEGATIVE i j"
proof (induction cs arbitrary: m)
  case Nil
  then show ?case by simp
next
  case (Cons c cs)
  show ?case
  proof (cases "update_cell D sl m (fst c) (snd c)")
    case (Inl e')
    with Cons.prems have "e' = e" by simp
    with Inl have "vH m (fst c) (snd c) < 0 \<and> e = THICKNESS_NEGATIVE (fst c) (snd c)"
      by (simp add: update_cell_Inl)
    then show ?thesis by (intro exI[of _ "fst c"] exI[of _ "snd c"]) simp
  next
    case (Inr t)
    with Cons.prems have "cell_loop (update_cell D sl) cs t = Inl e" by simp
    from Cons.IH[OF this] obtain i j where
      "(i, j) \<in> set cs" "vH t i j < 0" "e = THICKNESS_NEGATIVE i j" by blast
    moreover have "vH t = vH m" using update_cell_inputs[OF Inr] by simp
    ultimately show ?thesis by (intro exI[of _ i] exI[of _ j]) simp
  qed
qed

lemma update_loop_cell:
  assumes "cell_loop (update_cell D sl) cs m = Inr m'" and "distinct cs" and "(i, j) \<in> set cs"
  obtains pre post s1 s2 where "cs = pre @ (i, j) # post"
    and "cell_loop (update_cell D sl) pre m = Inr s1"
    and "update_cell D sl s1 i j = Inr s2"
    and "cell_loop (update_cell D sl) post s2 = Inr m'"
    and "(i, j) \<notin> set pre" and "(i, j) \<notin> set post"
proof -
  from assms(3) obtain pre post where cs: "cs = pre @ (i, j) # post"
    by (auto simp: in_set_conv_decomp)
  with assms(2) have n: "(i, j) \<notin> set pre" "(i, j) \<notin> set post" by auto
  from assms(1) obtain s1 where s1: "cell_loop (update_cell D sl) pre m = Inr s1"
    and r: "cell_loop (update_cell D sl) ((i, j) # post) s1 = Inr m'"
    by (auto simp: cs cell_loop_append split: sum.splits)
  from r obtain s2 where "update_cell D sl s1 i j = Inr s2"
    "cell_loop (update_cell D sl) post s2 = Inr m'"
    by (auto split: sum.splits)
  with cs s1 n show ?thesis using that by blast
qed

text \<open>What the loop leaves at an owned cell is what the body wrote there, and the body
  found the cell's input values.\<close>

lemma update_loop_at_cell:
  assumes "cell_loop (update_cell D sl) cs m = Inr m'" and "distinct cs" and "(i, j) \<in> set cs"
  obtains s1 s2 where "update_cell D sl s1 i j = Inr s2"
    and "vMask s1 i j = vMask m i j" and "vH s1 = vH m" and "vbed s1 = vbed m"
    and "config s1 = config m" and "ice_rho s1 = ice_rho m"
    and "vMask m' i j = vMask s2 i j" and "vh m' i j = vh s2 i j"
proof -
  obtain pre post s1 s2 where a0: "cs = pre @ (i, j) # post"
    and a: "cell_loop (update_cell D sl) pre m = Inr s1"
    "update_cell D sl s1 i j = Inr s2"
    "cell_loop (update_cell D sl) post s2 = Inr m'"
    "(i, j) \<notin> set pre" "(i, j) \<notin> set post"
    by (rule update_loop_cell[OF assms])
  have 1: "vMask s1 i j = vMask m i j" using update_loop_untouched[OF a(1) a(4)] by simp
  have 2: "vMask m' i j = vMask s2 i j" "vh m' i j = vh s2 i j"
    using update_loop_untouched[OF a(3) a(5)] by simp_all
  have 3: "vH s1 = vH m" "vbed s1 = vbed m" "config s1 = config m" "ice_rho s1 = ice_rho m"
    using update_loop_inputs[OF a(1)] by simp_all
  show ?thesis by (rule that[OF a(2) 1 3 2])
qed


subsection \<open>What the body of the loop does at its cell\<close>

lemma update_cell_h_bound:
  assumes "update_cell D sl m i j = Inr m'" and "\<not> is_dry_simulation (config m)"
    and "vMask m i j \<noteq> MASK_OCEAN_AT_TIME_0"
  shows "max (hgrounded m i j) (hfloating m sl i j) - 1 \<le> vh m' i j"
  using assms
  by (auto simp: update_cell_def flotation_def resolve_unknown_def Let_def set2_def
      split: if_splits)

lemma update_cell_ocean0:
  assumes "update_cell D sl m i j = Inr m'" and "vMask m i j = MASK_OCEAN_AT_TIME_0"
  shows "vMask m' i j = MASK_OCEAN_AT_TIME_0"
    and "\<not> is_dry_simulation (config m) \<Longrightarrow> vh m' i j = hfloating m sl i j"
    and "is_dry_simulation (config m) \<Longrightarrow> vh m' i j = hgrounded m i j"
  using assms by (auto simp: update_cell_def set2_def split: if_splits)

lemma update_cell_dry:
  assumes "update_cell D sl m i j = Inr m'" and "is_dry_simulation (config m)"
  shows "vMask m' = vMask m" and "vh m' i j = hgrounded m i j"
  using assms by (auto simp: update_cell_def set2_def split: if_splits)

lemma update_cell_floating:
  assumes "update_cell D sl m i j = Inr m'" and "\<not> is_dry_simulation (config m)"
    and "vMask m i j = MASK_FLOATING" and "is_floating D MASK_FLOATING"
  shows "hgrounded m i j > hfloating m sl i j + 1 \<Longrightarrow>
           vh m' i j = hgrounded m i j
           \<and> (vMask m' i j = MASK_SHEET \<or> vMask m' i j = MASK_DRAGGING_SHEET)
           \<and> (use_ssa_velocity (config m) \<and> do_plastic_till (config m)
                \<longrightarrow> vMask m' i j = MASK_DRAGGING_SHEET)
           \<and> (\<not> use_ssa_velocity (config m) \<longrightarrow> vMask m' i j = MASK_SHEET)"
    and "\<not> hgrounded m i j > hfloating m sl i j + 1 \<Longrightarrow>
           vh m' i j = hfloating m sl i j \<and> vMask m' i j = MASK_FLOATING"
  using assms
  by (auto simp: update_cell_def flotation_def resolve_unknown_def Let_def set2_def
      split: if_splits)

lemma update_cell_grounded:
  assumes "update_cell D sl m i j = Inr m'" and "\<not> is_dry_simulation (config m)"
    and "vMask m i j = MASK_SHEET \<or> vMask m i j = MASK_DRAGGING_SHEET"
    and "\<not> is_floating D (vMask m i j)"
  shows "hgrounded m i j > hfloating m sl i j - 1 \<Longrightarrow>
           vh m' i j = hgrounded m i j
           \<and> vMask m' i j = (if use_ssa_velocity (config m) \<and> do_plastic_till (config m)
                              then MASK_DRAGGING_SHEET else vMask m i j)"
    and "\<not> hgrounded m i j > hfloating m sl i j - 1 \<Longrightarrow>
           vh m' i j = hfloating m sl i j \<and> vMask m' i j = MASK_FLOATING"
  using assms
  by (auto simp: update_cell_def flotation_def resolve_unknown_def Let_def set2_def
      split: if_splits)

lemma neighmasksum_set2: "neighmasksum D (set2 msk i j v) i j = neighmasksum D msk i j"
  by (simp add: neighmasksum_def set2_def)

lemma update_cell_vote:
  assumes "update_cell D sl m i j = Inr m'" and "\<not> is_dry_simulation (config m)"
    and "vMask m i j \<noteq> MASK_OCEAN_AT_TIME_0" and "is_floating D (vMask m i j)"
    and "hgrounded m i j > hfloating m sl i j + 1"
    and "use_ssa_velocity (config m)" and "\<not> do_plastic_till (config m)"
  shows "vMask m' i j =
     (if neighmasksum D (vMask m) i j
           \<le> 7 * mask_value D MASK_SHEET + mask_value D MASK_DRAGGING_SHEET
      then MASK_SHEET else MASK_DRAGGING_SHEET)"
proof -
  let ?m1 = "m\<lparr>vh := set2 (vh m) i j (hgrounded m i j),
               vMask := set2 (vMask m) i j MASK_UNKNOWN\<rparr>"
  have f: "flotation D sl m i j = ?m1"
    using assms by (simp add: flotation_def Let_def)
  have "0 \<le> vH m i j" using assms(1) by (auto simp: update_cell_def split: if_splits)
  then have m': "m' = resolve_unknown D ?m1 i j"
    using assms by (simp add: update_cell_def f)
  have thr: "(real_of_int (neighmasksum D (vMask m) i j)
              \<le> real_of_int (7 * mask_value D MASK_SHEET + mask_value D MASK_DRAGGING_SHEET) + 0.1)
     \<longleftrightarrow> neighmasksum D (vMask m) i j
           \<le> 7 * mask_value D MASK_SHEET + mask_value D MASK_DRAGGING_SHEET"
    by linarith
  show ?thesis
    unfolding m' resolve_unknown_def
    by (simp add: neighmasksum_set2 thr set2_same del: of_int_add of_int_mult)
qed

lemma update_cell_no_unknown:
  assumes "update_cell D sl m i j = Inr m'" and "\<not> is_dry_simulation (config m)"
  shows "vMask m' i j \<noteq> MASK_UNKNOWN"
  using assms
  by (auto simp: update_cell_def flotation_def resolve_unknown_def Let_def set2_def
      split: if_splits)


subsection \<open>The whole routine\<close>

lemma update_Inr:
  assumes "updateSurfaceElevationAndMask D ih im m = Inr m'"
  obtains oc l where "ocean m = Some oc"
    and "cell_loop (update_cell D (sea_level_elevation oc)) (owned_cells (grid m)) m = Inr l"
    and "m' = l\<lparr>vh := ghostComm (grid m) ih (vh l), vMask := ghostComm (grid m) im (vMask l)\<rparr>"
  using assms
  by (auto simp: updateSurfaceElevationAndMask_def split: option.splits sum.splits)

lemma update_at_owned:
  assumes "updateSurfaceElevationAndMask D ih im m = Inr m'" and "owned (grid m) i j"
  obtains oc s1 s2 where "ocean m = Some oc"
    and "update_cell D (sea_level_elevation oc) s1 i j = Inr s2"
    and "vMask s1 i j = vMask m i j" and "vH s1 = vH m" and "vbed s1 = vbed m"
    and "config s1 = config m" and "ice_rho s1 = ice_rho m"
    and "vMask m' i j = vMask s2 i j" and "vh m' i j = vh s2 i j"
proof -
  obtain oc l where oc: "ocean m = Some oc"
    and l: "cell_loop (update_cell D (sea_level_elevation oc)) (owned_cells (grid m)) m = Inr l"
    and m': "m' = l\<lparr>vh := ghostComm (grid m) ih (vh l), vMask := ghostComm (grid m) im (vMask l)\<rparr>"
    by (rule update_Inr[OF assms(1)])
  have c: "(i, j) \<in> set (owned_cells (grid m))" using assms(2) by (simp add: set_owned_cells)
  obtain s1 s2 where s: "update_cell D (sea_level_elevation oc) s1 i j = Inr s2"
    "vMask s1 i j = vMask m i j" "vH s1 = vH m" "vbed s1 = vbed m"
    "config s1 = config m" "ice_rho s1 = ice_rho m"
    "vMask l i j = vMask s2 i j" "vh l i j = vh s2 i j"
    by (rule update_loop_at_cell[OF l distinct_owned_cells c])
  have "vMask m' i j = vMask s2 i j" "vh m' i j = vh s2 i j"
    using assms(2) s(7,8) by (simp_all add: m' ghostComm_def)
  then show ?thesis using that[OF oc s(1-6)] by simp
qed

lemma update_inputs:
  assumes "updateSurfaceElevationAndMask D ih im m = Inr m'"
  shows "vH m' = vH m \<and> vbed m' = vbed m \<and> config m' = config m \<and> ice_rho m' = ice_rho m
         \<and> grid m' = grid m \<and> ocean m' = ocean m \<and> surface m' = surface m"
proof -
  obtain oc l where oc: "ocean m = Some oc"
    and l: "cell_loop (update_cell D (sea_level_elevation oc)) (owned_cells (grid m)) m = Inr l"
    and m': "m' = l\<lparr>vh := ghostComm (grid m) ih (vh l), vMask := ghostComm (grid m) im (vMask l)\<rparr>"
    by (rule update_Inr[OF assms(1)])
  show ?thesis using update_loop_inputs[OF l] by (simp add: m')
qed

lemma update_total:
  assumes "ocean m = Some oc" and "\<forall>i j. owned (grid m) i j \<longrightarrow> 0 \<le> vH m i j"
  shows "\<exists>m'. updateSurfaceElevationAndMask D ih im m = Inr m'"
proof (cases "cell_loop (update_cell D (sea_level_elevation oc)) (owned_cells (grid m)) m")
  case (Inl e)
  from update_loop_Inl[OF this] obtain i j where
    "(i, j) \<in> set (owned_cells (grid m))" "vH m i j < 0" by blast
  with assms(2) have False by (fastforce simp: set_owned_cells)
  then show ?thesis ..
next
  case (Inr l)
  then show ?thesis using assms(1) by (simp add: updateSurfaceElevationAndMask_def)
qed

lemma update_negative:
  assumes "ocean m = Some oc" and "owned (grid m) i0 j0" and "vH m i0 j0 < 0"
  shows "\<exists>i j. owned (grid m) i j \<and> vH m i j < 0
     \<and> updateSurfaceElevationAndMask D ih im m = Inl (THICKNESS_NEGATIVE i j)"
proof (cases "cell_loop (update_cell D (sea_level_elevation oc)) (owned_cells (grid m)) m")
  case (Inl e)
  from update_loop_Inl[OF this] obtain i j where
    "(i, j) \<in> set (owned_cells (grid m))" "vH m i j < 0" "e = THICKNESS_NEGATIVE i j" by blast
  then show ?thesis using assms(1) Inl
    by (intro exI[of _ i] exI[of _ j]) (simp add: updateSurfaceElevationAndMask_def set_owned_cells)
next
  case (Inr l)
  have "(i0, j0) \<in> set (owned_cells (grid m))" using assms(2) by (simp add: set_owned_cells)
  from update_loop_Inr_nonneg[OF Inr this] assms(3) show ?thesis by simp
qed

lemma update_error_cases:
  assumes "updateSurfaceElevationAndMask D ih im m = Inl e"
  shows "(e = OCEAN_NULL \<and> ocean m = None)
     \<or> (\<exists>i j. e = THICKNESS_NEGATIVE i j \<and> owned (grid m) i j \<and> vH m i j < 0)"
proof (cases "ocean m")
  case None
  then show ?thesis using assms by (simp add: updateSurfaceElevationAndMask_def)
next
  case (Some oc)
  then have "cell_loop (update_cell D (sea_level_elevation oc)) (owned_cells (grid m)) m = Inl e"
    using assms by (simp add: updateSurfaceElevationAndMask_def split: sum.splits)
  from update_loop_Inl[OF this] show ?thesis by (auto simp: set_owned_cells)
qed


subsection \<open>Non-negative thickness\<close>

text \<open>
  Claim C1. When \<open>massContExplicitStep\<close> returns, the new thickness is non-negative at
  every owned cell, in every configuration and for all inputs: after the clamp of a
  negative value to zero, the two calving rules only write zero. The routine returns
  whenever the surface and ocean models are attached.
\<close>

theorem C1_thickness_nonnegative:
  "(surface m \<noteq> None \<and> ocean m \<noteq> None \<longrightarrow> (\<exists>m'. massContExplicitStep D incoming_H m = Inr m'))
   \<and> (\<forall>m' i j. massContExplicitStep D incoming_H m = Inr m' \<and> owned (grid m) i j
          \<longrightarrow> 0 \<le> vH m' i j)"
proof (intro conjI allI impI)
  assume "surface m \<noteq> None \<and> ocean m \<noteq> None"
  then obtain sf oc where "surface m = Some sf" "ocean m = Some oc" by auto
  then show "\<exists>m'. massContExplicitStep D incoming_H m = Inr m'"
    using massContExplicitStep_eq by blast
next
  fix m' i j
  assume a: "massContExplicitStep D incoming_H m = Inr m' \<and> owned (grid m) i j"
  then obtain sf oc where so: "surface m = Some sf" "ocean m = Some oc"
    using massContExplicitStep_Inr by blast
  from a massContExplicitStep_eq[OF so, of D incoming_H]
  have "vH m' i j = massCont_cell D m (ice_surface_mass_flux sf) (shelf_base_mass_flux oc)
                        (vH m i j) i j"
    by auto
  then show "0 \<le> vH m' i j" by (simp add: massCont_cell_nonneg)
qed

theorem C1_thickness_nonnegative_witness:
  "surface example_model \<noteq> None \<and> ocean example_model \<noteq> None
   \<and> owned (grid example_model) 0 0
   \<and> (\<exists>m'. massContExplicitStep example_declarations (\<lambda>i j. 0) example_model = Inr m'
          \<and> 0 \<le> vH m' 0 0)"
proof -
  have s: "surface example_model \<noteq> None \<and> ocean example_model \<noteq> None"
    by (simp add: example_model_def)
  have o: "owned (grid example_model) 0 0"
    by (simp add: example_model_def owned_def)
  note c1 = C1_thickness_nonnegative[of example_model example_declarations "\<lambda>i j. 0"]
  from c1 s obtain m' where
    m': "massContExplicitStep example_declarations (\<lambda>i j. 0) example_model = Inr m'"
    by blast
  with c1 o have "0 \<le> vH m' 0 0" by blast
  with s o m' show ?thesis by blast
qed


subsection \<open>The flotation criterion\<close>

text \<open>The grid of the concrete inputs has the single owned cell \<open>(0, 0)\<close>.\<close>

lemma owned_cells_single:
  "xs g = 0 \<Longrightarrow> xm g = 1 \<Longrightarrow> ys g = 0 \<Longrightarrow> ym g = 1 \<Longrightarrow> owned_cells g = [(0, 0)]"
  by (simp add: owned_cells_def)

text \<open>
  Claim C2 (as amended). Outside dry-simulation mode and with every owned input
  thickness non-negative, the routine returns, and at every owned cell whose mask is
  not \<open>MASK_OCEAN_AT_TIME_0\<close> the new surface elevation is at least
  \<open>max (bed + H) (sea_level + (1 - rho_ice/rho_ocean) H) - 1\<close>.
\<close>

theorem C2_surface_lower_bound:
  assumes "ocean m = Some oc" and "\<not> is_dry_simulation (config m)"
    and "\<forall>i j. owned (grid m) i j \<longrightarrow> 0 \<le> vH m i j"
  shows "\<exists>m'. updateSurfaceElevationAndMask D incoming_h incoming_mask m = Inr m'
     \<and> (\<forall>i j. owned (grid m) i j \<and> vMask m i j \<noteq> MASK_OCEAN_AT_TIME_0 \<longrightarrow>
           max (vbed m i j + vH m i j)
               (sea_level_elevation oc
                  + (1 - ice_rho m / sea_water_density (config m)) * vH m i j) - 1
           \<le> vh m' i j)"
proof -
  obtain m' where m': "updateSurfaceElevationAndMask D incoming_h incoming_mask m = Inr m'"
    using update_total[OF assms(1,3)] by blast
  have "max (vbed m i j + vH m i j)
            (sea_level_elevation oc
               + (1 - ice_rho m / sea_water_density (config m)) * vH m i j) - 1
        \<le> vh m' i j"
    if o: "owned (grid m) i j" and k: "vMask m i j \<noteq> MASK_OCEAN_AT_TIME_0" for i j
  proof -
    obtain oc' s1 s2 where s: "ocean m = Some oc'"
      "update_cell D (sea_level_elevation oc') s1 i j = Inr s2"
      "vMask s1 i j = vMask m i j" "vH s1 = vH m" "vbed s1 = vbed m"
      "config s1 = config m" "ice_rho s1 = ice_rho m"
      "vMask m' i j = vMask s2 i j" "vh m' i j = vh s2 i j"
      by (rule update_at_owned[OF m' o])
    have oc: "oc' = oc" using s(1) assms(1) by simp
    have "max (hgrounded s1 i j) (hfloating s1 (sea_level_elevation oc) i j) - 1 \<le> vh s2 i j"
      using update_cell_h_bound[OF s(2)] assms(2) k s(3,6) oc by simp
    then show ?thesis
      using s(4-7,9) by (simp add: hgrounded_def hfloating_def)
  qed
  with m' show ?thesis by blast
qed

theorem C2_surface_lower_bound_witness:
  "ocean (example_shelf MASK_FLOATING) \<noteq> None
   \<and> \<not> is_dry_simulation (config (example_shelf MASK_FLOATING))
   \<and> owned (grid (example_shelf MASK_FLOATING)) 0 0
   \<and> 0 \<le> vH (example_shelf MASK_FLOATING) 0 0
   \<and> vMask (example_shelf MASK_FLOATING) 0 0 \<noteq> MASK_OCEAN_AT_TIME_0
   \<and> (\<exists>m'. updateSurfaceElevationAndMask example_declarations (\<lambda>i j. 0) (\<lambda>i j. MASK_FLOATING)
               (example_shelf MASK_FLOATING) = Inr m'
          \<and> 3 \<le> vh m' 0 0)"
proof -
  let ?m = "example_shelf MASK_FLOATING"
  let ?oc = "\<lparr> sea_level_elevation = 0, shelf_base_mass_flux = (\<lambda>i j. 0) \<rparr>"
  have 1: "ocean ?m = Some ?oc"
    by (simp add: example_shelf_def example_model_def)
  have 2: "\<not> is_dry_simulation (config ?m)"
    by (simp add: example_shelf_def example_model_def example_config_def)
  have 3: "\<forall>i j. owned (grid ?m) i j \<longrightarrow> 0 \<le> vH ?m i j"
    by (simp add: example_shelf_def example_model_def)
  have 4: "owned (grid ?m) 0 0"
    by (simp add: example_shelf_def example_model_def owned_def)
  have 5: "vMask ?m 0 0 \<noteq> MASK_OCEAN_AT_TIME_0"
    by (simp add: example_shelf_def example_model_def)
  from C2_surface_lower_bound[OF 1 2 3, of example_declarations "\<lambda>i j. 0" "\<lambda>i j. MASK_FLOATING"]
  obtain m' where m': "updateSurfaceElevationAndMask example_declarations (\<lambda>i j. 0)
      (\<lambda>i j. MASK_FLOATING) ?m = Inr m'"
    and b: "\<forall>i j. owned (grid ?m) i j \<and> vMask ?m i j \<noteq> MASK_OCEAN_AT_TIME_0 \<longrightarrow>
           max (vbed ?m i j + vH ?m i j)
               (sea_level_elevation ?oc
                  + (1 - ice_rho ?m / sea_water_density (config ?m)) * vH ?m i j) - 1
           \<le> vh m' i j"
    by blast
  from b 4 5 have "max (vbed ?m 0 0 + vH ?m 0 0)
               (sea_level_elevation ?oc
                  + (1 - ice_rho ?m / sea_water_density (config ?m)) * vH ?m 0 0) - 1
           \<le> vh m' 0 0" by blast
  then have "3 \<le> vh m' 0 0"
    by (simp add: example_shelf_def example_model_def example_config_def)
  with 1 2 3 4 5 m' show ?thesis
    by (simp add: example_shelf_def example_model_def)
qed

text \<open>
  The claim as stated fails in the two configurations that it names. In dry-simulation
  mode the surface of the cell with thickness \<open>50\<close> over a bed at \<open>-500\<close> is set to
  \<open>-450\<close>, below the flotation height \<open>4\<close>; a cell marked \<open>MASK_OCEAN_AT_TIME_0\<close> with
  thickness \<open>100\<close> on a bed at \<open>0\<close> is set to the flotation height \<open>8\<close>, below
  \<open>bed + H = 100\<close>.
\<close>

theorem C2_counterexample:
  "owned (grid example_model) 0 0
   \<and> 0 \<le> vH (example_shelf MASK_FLOATING) 0 0
   \<and> \<not> isl (updateSurfaceElevationAndMask example_declarations (\<lambda>i j. 0) (\<lambda>i j. MASK_FLOATING)
              ((example_shelf MASK_FLOATING)\<lparr>config := example_config\<lparr>is_dry_simulation := True\<rparr>\<rparr>))
   \<and> vh (projr (updateSurfaceElevationAndMask example_declarations (\<lambda>i j. 0)
                   (\<lambda>i j. MASK_FLOATING)
                   ((example_shelf MASK_FLOATING)
                      \<lparr>config := example_config\<lparr>is_dry_simulation := True\<rparr>\<rparr>))) 0 0
       < max (- 500 + 50) (0 + (1 - 920 / 1000) * 50) - 1
   \<and> 0 \<le> vH example_model 0 0
   \<and> \<not> isl (updateSurfaceElevationAndMask example_declarations (\<lambda>i j. 0)
              (\<lambda>i j. MASK_OCEAN_AT_TIME_0)
              (example_model\<lparr>vMask := (\<lambda>i j. MASK_OCEAN_AT_TIME_0)\<rparr>))
   \<and> vh (projr (updateSurfaceElevationAndMask example_declarations (\<lambda>i j. 0)
                   (\<lambda>i j. MASK_OCEAN_AT_TIME_0)
                   (example_model\<lparr>vMask := (\<lambda>i j. MASK_OCEAN_AT_TIME_0)\<rparr>))) 0 0
       < max (0 + 100) (0 + (1 - 920 / 1000) * 100) - 1"
  by (simp add: updateSurfaceElevationAndMask_def example_shelf_def example_model_def
      example_config_def owned_cells_single owned_def update_cell_def ghostComm_def set2_def
      hgrounded_def hfloating_def)


text \<open>
  Claim C3. Outside the dry-simulation branch and the \<open>MASK_OCEAN_AT_TIME_0\<close> branch,
  with \<open>hg = bed + H\<close> and \<open>hf = sea_level + (1 - rho_ice/rho_ocean) H\<close>: a cell whose
  mask is floating becomes grounded (\<open>h = hg\<close>; \<open>MASK_DRAGGING_SHEET\<close> when SSA velocity
  and plastic till are both active, \<open>MASK_SHEET\<close> when SSA is inactive) exactly when
  \<open>hg > hf + 1\<close>, and otherwise gets \<open>h = hf\<close> with mask \<open>MASK_FLOATING\<close>; a cell whose mask
  is grounded stays grounded (\<open>h = hg\<close>, its submask kept, or \<open>MASK_DRAGGING_SHEET\<close> when
  SSA velocity and plastic till are both active) exactly when \<open>hg > hf - 1\<close>, and
  otherwise gets \<open>h = hf\<close> with mask \<open>MASK_FLOATING\<close>. The predicate \<open>is_floating\<close> is
  taken to hold of \<open>MASK_FLOATING\<close> and not of the two grounded masks.
\<close>

theorem C3_flotation_hysteresis:
  assumes "is_floating D MASK_FLOATING" and "\<not> is_floating D MASK_SHEET"
    and "\<not> is_floating D MASK_DRAGGING_SHEET"
    and "ocean m = Some oc" and "\<not> is_dry_simulation (config m)"
    and "\<forall>i j. owned (grid m) i j \<longrightarrow> 0 \<le> vH m i j"
    and "owned (grid m) i j"
    and "hg = vbed m i j + vH m i j"
    and "hf = sea_level_elevation oc + (1 - ice_rho m / sea_water_density (config m)) * vH m i j"
  shows "\<exists>m'. updateSurfaceElevationAndMask D incoming_h incoming_mask m = Inr m'
     \<and> (vMask m i j = MASK_FLOATING \<longrightarrow>
          (if hg > hf + 1
           then vh m' i j = hg
                \<and> (vMask m' i j = MASK_SHEET \<or> vMask m' i j = MASK_DRAGGING_SHEET)
                \<and> (use_ssa_velocity (config m) \<and> do_plastic_till (config m)
                      \<longrightarrow> vMask m' i j = MASK_DRAGGING_SHEET)
                \<and> (\<not> use_ssa_velocity (config m) \<longrightarrow> vMask m' i j = MASK_SHEET)
           else vh m' i j = hf \<and> vMask m' i j = MASK_FLOATING))
     \<and> (vMask m i j = MASK_SHEET \<or> vMask m i j = MASK_DRAGGING_SHEET \<longrightarrow>
          (if hg > hf - 1
           then vh m' i j = hg
                \<and> vMask m' i j =
                    (if use_ssa_velocity (config m) \<and> do_plastic_till (config m)
                     then MASK_DRAGGING_SHEET else vMask m i j)
           else vh m' i j = hf \<and> vMask m' i j = MASK_FLOATING))"
proof -
  obtain m' where m': "updateSurfaceElevationAndMask D incoming_h incoming_mask m = Inr m'"
    using update_total[OF assms(4,6)] by blast
  obtain oc' s1 s2 where s: "ocean m = Some oc'"
    "update_cell D (sea_level_elevation oc') s1 i j = Inr s2"
    "vMask s1 i j = vMask m i j" "vH s1 = vH m" "vbed s1 = vbed m"
    "config s1 = config m" "ice_rho s1 = ice_rho m"
    "vMask m' i j = vMask s2 i j" "vh m' i j = vh s2 i j"
    by (rule update_at_owned[OF m' assms(7)])
  have oc: "oc' = oc" using s(1) assms(4) by simp
  have hg: "hgrounded s1 i j = hg"
    using s(4,5) assms(8) by (simp add: hgrounded_def)
  have hf: "hfloating s1 (sea_level_elevation oc') i j = hf"
    using s(4,6,7) assms(9) oc by (simp add: hfloating_def)
  have dry: "\<not> is_dry_simulation (config s1)" using assms(5) s(6) by simp
  have A: "vMask m i j = MASK_FLOATING \<longrightarrow>
          (if hg > hf + 1
           then vh m' i j = hg
                \<and> (vMask m' i j = MASK_SHEET \<or> vMask m' i j = MASK_DRAGGING_SHEET)
                \<and> (use_ssa_velocity (config m) \<and> do_plastic_till (config m)
                      \<longrightarrow> vMask m' i j = MASK_DRAGGING_SHEET)
                \<and> (\<not> use_ssa_velocity (config m) \<longrightarrow> vMask m' i j = MASK_SHEET)
           else vh m' i j = hf \<and> vMask m' i j = MASK_FLOATING)"
  proof
    assume "vMask m i j = MASK_FLOATING"
    then have k: "vMask s1 i j = MASK_FLOATING" using s(3) by simp
    note f = update_cell_floating[OF s(2) dry k assms(1), unfolded hg hf]
    show "if hg > hf + 1
           then vh m' i j = hg
                \<and> (vMask m' i j = MASK_SHEET \<or> vMask m' i j = MASK_DRAGGING_SHEET)
                \<and> (use_ssa_velocity (config m) \<and> do_plastic_till (config m)
                      \<longrightarrow> vMask m' i j = MASK_DRAGGING_SHEET)
                \<and> (\<not> use_ssa_velocity (config m) \<longrightarrow> vMask m' i j = MASK_SHEET)
           else vh m' i j = hf \<and> vMask m' i j = MASK_FLOATING"
    proof (cases "hg > hf + 1")
      case True
      with f(1) show ?thesis using s(6,8,9) by simp
    next
      case False
      with f(2) show ?thesis using s(8,9) by simp
    qed
  qed
  have B: "vMask m i j = MASK_SHEET \<or> vMask m i j = MASK_DRAGGING_SHEET \<longrightarrow>
          (if hg > hf - 1
           then vh m' i j = hg
                \<and> vMask m' i j =
                    (if use_ssa_velocity (config m) \<and> do_plastic_till (config m)
                     then MASK_DRAGGING_SHEET else vMask m i j)
           else vh m' i j = hf \<and> vMask m' i j = MASK_FLOATING)"
  proof
    assume g: "vMask m i j = MASK_SHEET \<or> vMask m i j = MASK_DRAGGING_SHEET"
    then have k: "vMask s1 i j = MASK_SHEET \<or> vMask s1 i j = MASK_DRAGGING_SHEET"
      using s(3) by simp
    have nf: "\<not> is_floating D (vMask s1 i j)" using k assms(2,3) by auto
    note f = update_cell_grounded[OF s(2) dry k nf, unfolded hg hf]
    show "if hg > hf - 1
           then vh m' i j = hg
                \<and> vMask m' i j =
                    (if use_ssa_velocity (config m) \<and> do_plastic_till (config m)
                     then MASK_DRAGGING_SHEET else vMask m i j)
           else vh m' i j = hf \<and> vMask m' i j = MASK_FLOATING"
    proof (cases "hg > hf - 1")
      case True
      with f(1) show ?thesis using s(3,6,8,9) by simp
    next
      case False
      with f(2) show ?thesis using s(8,9) by simp
    qed
  qed
  from m' A B show ?thesis by blast
qed

theorem C3_flotation_hysteresis_witness:
  "is_floating example_declarations MASK_FLOATING
   \<and> \<not> is_floating example_declarations MASK_SHEET
   \<and> \<not> is_floating example_declarations MASK_DRAGGING_SHEET
   \<and> ocean (example_shelf MASK_FLOATING) \<noteq> None
   \<and> \<not> is_dry_simulation (config (example_shelf MASK_FLOATING))
   \<and> owned (grid (example_shelf MASK_FLOATING)) 0 0
   \<and> 0 \<le> vH (example_shelf MASK_FLOATING) 0 0
   \<and> vMask (example_shelf MASK_FLOATING) 0 0 = MASK_FLOATING
   \<and> (\<exists>m'. updateSurfaceElevationAndMask example_declarations (\<lambda>i j. 0) (\<lambda>i j. MASK_FLOATING)
               (example_shelf MASK_FLOATING) = Inr m'
          \<and> vh m' 0 0 = 4 \<and> vMask m' 0 0 = MASK_FLOATING)"
proof -
  let ?m = "example_shelf MASK_FLOATING"
  let ?oc = "\<lparr> sea_level_elevation = 0, shelf_base_mass_flux = (\<lambda>i j. 0) \<rparr>"
  have d: "is_floating example_declarations MASK_FLOATING"
    "\<not> is_floating example_declarations MASK_SHEET"
    "\<not> is_floating example_declarations MASK_DRAGGING_SHEET"
    by (simp_all add: example_declarations_def)
  have 1: "ocean ?m = Some ?oc"
    by (simp add: example_shelf_def example_model_def)
  have 2: "\<not> is_dry_simulation (config ?m)"
    by (simp add: example_shelf_def example_model_def example_config_def)
  have 3: "\<forall>i j. owned (grid ?m) i j \<longrightarrow> 0 \<le> vH ?m i j"
    by (simp add: example_shelf_def example_model_def)
  have 4: "owned (grid ?m) 0 0"
    by (simp add: example_shelf_def example_model_def owned_def)
  have 5: "vMask ?m 0 0 = MASK_FLOATING"
    by (simp add: example_shelf_def example_model_def)
  have hg: "- 450 = vbed ?m 0 0 + vH ?m 0 0"
    by (simp add: example_shelf_def example_model_def)
  have hf: "4 = sea_level_elevation ?oc
      + (1 - ice_rho ?m / sea_water_density (config ?m)) * vH ?m 0 0"
    by (simp add: example_shelf_def example_model_def example_config_def)
  from C3_flotation_hysteresis[OF d 1 2 3 4 hg hf, of "\<lambda>i j. 0" "\<lambda>i j. MASK_FLOATING"] 5
  obtain m' where "updateSurfaceElevationAndMask example_declarations (\<lambda>i j. 0)
      (\<lambda>i j. MASK_FLOATING) ?m = Inr m'" "vh m' 0 0 = 4" "vMask m' 0 0 = MASK_FLOATING"
    by auto
  with d 1 2 3 4 5 show ?thesis
    by (simp add: example_shelf_def example_model_def)
qed

subsection \<open>Negative input thickness\<close>

text \<open>
  Claim C7. Whenever some owned cell has negative input thickness the routine ends with
  an error, and with the ocean model attached (so that the loop over the cells is
  reached) the error names the indices of an owned cell with negative thickness. When
  every owned thickness is non-negative this error cannot occur and the routine returns.
  The thickness field is never changed: a negative value is not clamped.
\<close>

theorem C7_negative_thickness_fatal:
  "((\<exists>i j. owned (grid m) i j \<and> vH m i j < 0) \<longrightarrow>
      (\<exists>e. updateSurfaceElevationAndMask D incoming_h incoming_mask m = Inl e)
      \<and> (ocean m \<noteq> None \<longrightarrow>
           (\<exists>i j. owned (grid m) i j \<and> vH m i j < 0
              \<and> updateSurfaceElevationAndMask D incoming_h incoming_mask m
                  = Inl (THICKNESS_NEGATIVE i j))))
   \<and> ((\<forall>i j. owned (grid m) i j \<longrightarrow> 0 \<le> vH m i j) \<longrightarrow>
        (\<forall>i j. updateSurfaceElevationAndMask D incoming_h incoming_mask m
                 \<noteq> Inl (THICKNESS_NEGATIVE i j))
        \<and> (ocean m \<noteq> None \<longrightarrow>
             (\<exists>m'. updateSurfaceElevationAndMask D incoming_h incoming_mask m = Inr m')))
   \<and> (\<forall>m'. updateSurfaceElevationAndMask D incoming_h incoming_mask m = Inr m'
          \<longrightarrow> vH m' = vH m)"
proof (intro conjI impI allI)
  assume n: "\<exists>i j. owned (grid m) i j \<and> vH m i j < 0"
  then obtain i0 j0 where n0: "owned (grid m) i0 j0" "vH m i0 j0 < 0" by blast
  show "\<exists>e. updateSurfaceElevationAndMask D incoming_h incoming_mask m = Inl e"
  proof (cases "ocean m")
    case None
    then show ?thesis by (simp add: updateSurfaceElevationAndMask_def)
  next
    case (Some oc)
    from update_negative[OF Some n0] show ?thesis by blast
  qed
next
  assume n: "\<exists>i j. owned (grid m) i j \<and> vH m i j < 0" and "ocean m \<noteq> None"
  then obtain i0 j0 oc where "owned (grid m) i0 j0" "vH m i0 j0 < 0" "ocean m = Some oc"
    by blast
  then show "\<exists>i j. owned (grid m) i j \<and> vH m i j < 0
              \<and> updateSurfaceElevationAndMask D incoming_h incoming_mask m
                  = Inl (THICKNESS_NEGATIVE i j)"
    using update_negative by blast
next
  fix i j
  assume p: "\<forall>i j. owned (grid m) i j \<longrightarrow> 0 \<le> vH m i j"
  show "updateSurfaceElevationAndMask D incoming_h incoming_mask m \<noteq> Inl (THICKNESS_NEGATIVE i j)"
  proof
    assume "updateSurfaceElevationAndMask D incoming_h incoming_mask m = Inl (THICKNESS_NEGATIVE i j)"
    from update_error_cases[OF this] have "owned (grid m) i j \<and> vH m i j < 0" by simp
    with p show False by fastforce
  qed
next
  assume p: "\<forall>i j. owned (grid m) i j \<longrightarrow> 0 \<le> vH m i j" and "ocean m \<noteq> None"
  then obtain oc where "ocean m = Some oc" by blast
  from update_total[OF this p]
  show "\<exists>m'. updateSurfaceElevationAndMask D incoming_h incoming_mask m = Inr m'" .
next
  fix m'
  assume "updateSurfaceElevationAndMask D incoming_h incoming_mask m = Inr m'"
  from update_inputs[OF this] show "vH m' = vH m" by simp
qed

theorem C7_negative_thickness_fatal_witness:
  "owned (grid example_model) 0 0
   \<and> ocean example_model \<noteq> None
   \<and> vH (example_model\<lparr>vH := (\<lambda>i j. - 1)\<rparr>) 0 0 < 0
   \<and> updateSurfaceElevationAndMask example_declarations (\<lambda>i j. 0) (\<lambda>i j. MASK_SHEET)
        (example_model\<lparr>vH := (\<lambda>i j. - 1)\<rparr>) = Inl (THICKNESS_NEGATIVE 0 0)
   \<and> 0 \<le> vH example_model 0 0
   \<and> (\<exists>m'. updateSurfaceElevationAndMask example_declarations (\<lambda>i j. 0) (\<lambda>i j. MASK_SHEET)
              example_model = Inr m' \<and> vH m' = vH example_model)"
proof -
  let ?n = "example_model\<lparr>vH := (\<lambda>i j. - 1)\<rparr>"
  have o: "owned (grid example_model) 0 0" "ocean example_model \<noteq> None"
    by (simp_all add: example_model_def owned_def)
  have g: "\<And>i j. owned (grid example_model) i j \<longleftrightarrow> i = 0 \<and> j = 0"
    by (auto simp: example_model_def owned_def)
  have n: "\<exists>i j. owned (grid ?n) i j \<and> vH ?n i j < 0"
    by (simp add: g)
  have n2: "ocean ?n \<noteq> None"
    by (simp add: example_model_def)
  from C7_negative_thickness_fatal[of ?n example_declarations "\<lambda>i j. 0" "\<lambda>i j. MASK_SHEET"] n n2
  obtain i j where "owned (grid ?n) i j"
    "updateSurfaceElevationAndMask example_declarations (\<lambda>i j. 0) (\<lambda>i j. MASK_SHEET) ?n
       = Inl (THICKNESS_NEGATIVE i j)"
    by blast
  then have e: "updateSurfaceElevationAndMask example_declarations (\<lambda>i j. 0) (\<lambda>i j. MASK_SHEET) ?n
       = Inl (THICKNESS_NEGATIVE 0 0)"
    by (simp add: g)
  have p: "\<forall>i j. owned (grid example_model) i j \<longrightarrow> 0 \<le> vH example_model i j"
    by (simp add: example_model_def)
  note c7 = C7_negative_thickness_fatal[of example_model example_declarations "\<lambda>i j. 0"
      "\<lambda>i j. MASK_SHEET"]
  from c7 p o(2) obtain m' where
    m': "updateSurfaceElevationAndMask example_declarations (\<lambda>i j. 0) (\<lambda>i j. MASK_SHEET)
              example_model = Inr m'"
    by blast
  with c7 have "vH m' = vH example_model" by blast
  with o e m' show ?thesis by (simp add: example_model_def)
qed


subsection \<open>The vote by neighbours\<close>

text \<open>The loop visits the owned cells in lexicographic order of \<open>(i, j)\<close>.\<close>

lemma sorted_wrt_product:
  assumes "sorted_wrt (<) (as :: int list)" and "sorted_wrt (<) (bs :: int list)"
  shows "sorted_wrt (\<lambda>a b. fst a < fst b \<or> fst a = fst b \<and> snd a < snd b)
           (List.product as bs)"
  using assms(1)
proof (induction as)
  case Nil
  then show ?case by simp
next
  case (Cons a as)
  have 1: "sorted_wrt (\<lambda>a b. fst a < fst b \<or> fst a = fst b \<and> snd a < snd b)
             (map (Pair a) bs)"
    using assms(2) by (simp add: sorted_wrt_map)
  have 2: "sorted_wrt (\<lambda>a b. fst a < fst b \<or> fst a = fst b \<and> snd a < snd b)
             (List.product as bs)"
    using Cons by simp
  have 3: "\<forall>x\<in>set (map (Pair a) bs). \<forall>y\<in>set (List.product as bs).
             fst x < fst y \<or> fst x = fst y \<and> snd x < snd y"
    using Cons.prems by auto
  show ?case using 1 2 3 by (simp add: sorted_wrt_append)
qed

lemma owned_cells_sorted:
  "sorted_wrt (\<lambda>a b. fst a < fst b \<or> fst a = fst b \<and> snd a < snd b) (owned_cells g)"
  unfolding owned_cells_product
  by (rule sorted_wrt_product) (simp_all add: strict_sorted_iff)

text \<open>The cells that the loop has visited when it reaches \<open>(i, j)\<close>.\<close>

lemma owned_cells_before:
  assumes "owned_cells g = pre @ (i, j) # post"
  shows "(i', j') \<in> set pre \<longleftrightarrow> owned g i' j' \<and> (i' < i \<or> i' = i \<and> j' < j)"
proof -
  have s: "sorted_wrt (\<lambda>a b. fst a < fst b \<or> fst a = fst b \<and> snd a < snd b)
            (pre @ (i, j) # post)"
    using owned_cells_sorted[of g] assms by simp
  have pre: "\<forall>a\<in>set pre. fst a < i \<or> fst a = i \<and> snd a < j"
    using s by (auto simp: sorted_wrt_append)
  have post: "\<forall>b\<in>set post. i < fst b \<or> i = fst b \<and> j < snd b"
    using s by (auto simp: sorted_wrt_append)
  have mem: "owned g i' j' \<longleftrightarrow> (i', j') \<in> set pre \<or> (i', j') = (i, j) \<or> (i', j') \<in> set post"
    using set_owned_cells[of i' j' g] assms by auto
  show ?thesis
  proof
    assume a: "(i', j') \<in> set pre"
    with pre have "i' < i \<or> i' = i \<and> j' < j" by fastforce
    with a mem show "owned g i' j' \<and> (i' < i \<or> i' = i \<and> j' < j)" by blast
  next
    assume a: "owned g i' j' \<and> (i' < i \<or> i' = i \<and> j' < j)"
    have "(i', j') \<noteq> (i, j)" using a by auto
    moreover have "(i', j') \<notin> set post"
    proof
      assume "(i', j') \<in> set post"
      with post have "i < i' \<or> i = i' \<and> j < j'" by fastforce
      with a show False by auto
    qed
    ultimately show "(i', j') \<in> set pre" using a mem by blast
  qed
qed

text \<open>The mask that the body finds when the loop reaches the owned cell \<open>(i, j)\<close>:
  final values at the owned cells visited before, input values elsewhere.\<close>

lemma update_loop_mask_at_cell:
  assumes l: "cell_loop (update_cell D sl) (owned_cells g) m = Inr l" and o: "owned g i j"
  obtains s1 s2 where "update_cell D sl s1 i j = Inr s2"
    and "vMask s1 = (\<lambda>i' j'. if owned g i' j' \<and> (i' < i \<or> i' = i \<and> j' < j)
                              then vMask l i' j' else vMask m i' j')"
    and "vH s1 = vH m" and "vbed s1 = vbed m"
    and "config s1 = config m" and "ice_rho s1 = ice_rho m"
    and "vMask l i j = vMask s2 i j"
proof -
  have c: "(i, j) \<in> set (owned_cells g)" using o by (simp add: set_owned_cells)
  obtain pre post s1 s2 where cs: "owned_cells g = pre @ (i, j) # post"
    and a: "cell_loop (update_cell D sl) pre m = Inr s1"
    "update_cell D sl s1 i j = Inr s2"
    "cell_loop (update_cell D sl) post s2 = Inr l"
    "(i, j) \<notin> set pre" "(i, j) \<notin> set post"
    by (rule update_loop_cell[OF l distinct_owned_cells c])
  have d: "distinct (pre @ (i, j) # post)" using distinct_owned_cells[of g] cs by simp
  have "vMask s1 i' j' = (if owned g i' j' \<and> (i' < i \<or> i' = i \<and> j' < j)
                              then vMask l i' j' else vMask m i' j')" for i' j'
  proof (cases "(i', j') \<in> set pre")
    case True
    then have n: "(i', j') \<noteq> (i, j)" "(i', j') \<notin> set post" using d by auto
    have "vMask s2 i' j' = vMask s1 i' j'" using update_cell_other[OF a(2) n(1)] by simp
    moreover have "vMask l i' j' = vMask s2 i' j'"
      using update_loop_untouched[OF a(3) n(2)] by simp
    ultimately have e: "vMask s1 i' j' = vMask l i' j'" by simp
    have p: "owned g i' j' \<and> (i' < i \<or> i' = i \<and> j' < j)"
      using True owned_cells_before[OF cs, of i' j'] by blast
    show ?thesis unfolding if_P[OF p] by (rule e)
  next
    case False
    then have e: "vMask s1 i' j' = vMask m i' j'" using update_loop_untouched[OF a(1)] by simp
    have np: "\<not> (owned g i' j' \<and> (i' < i \<or> i' = i \<and> j' < j))"
      using False owned_cells_before[OF cs, of i' j'] by blast
    show ?thesis unfolding if_not_P[OF np] by (rule e)
  qed
  then have 1: "vMask s1 = (\<lambda>i' j'. if owned g i' j' \<and> (i' < i \<or> i' = i \<and> j' < j)
                              then vMask l i' j' else vMask m i' j')"
    by (simp add: fun_eq_iff)
  have 2: "vMask l i j = vMask s2 i j" using update_loop_untouched[OF a(3) a(5)] by simp
  have 3: "vH s1 = vH m" "vbed s1 = vbed m" "config s1 = config m" "ice_rho s1 = ice_rho m"
    using update_loop_inputs[OF a(1)] by simp_all
  show ?thesis by (rule that[OF a(2) 1 3 2])
qed


lemma update_dry_mask:
  assumes "updateSurfaceElevationAndMask D ih im m = Inr m'" and "is_dry_simulation (config m)"
    and "owned (grid m) i j"
  shows "vMask m' i j = vMask m i j"
proof -
  obtain oc s1 s2 where s: "ocean m = Some oc"
    "update_cell D (sea_level_elevation oc) s1 i j = Inr s2"
    "vMask s1 i j = vMask m i j" "vH s1 = vH m" "vbed s1 = vbed m"
    "config s1 = config m" "ice_rho s1 = ice_rho m"
    "vMask m' i j = vMask s2 i j" "vh m' i j = vh s2 i j"
    by (rule update_at_owned[OF assms(1,3)])
  have "is_dry_simulation (config s1)" using assms(2) s(6) by simp
  from update_cell_dry(1)[OF s(2) this] s(3,8) show ?thesis by simp
qed

text \<open>
  Claim C4. The routine returns with no owned cell left \<open>MASK_UNKNOWN\<close>: outside
  dry-simulation mode for every input; in dry-simulation mode the mask of every owned
  cell is left as it was, so there the input is taken to hold no \<open>MASK_UNKNOWN\<close>. A cell
  that the routine sets to \<open>MASK_UNKNOWN\<close> (a floating cell that grounds while SSA
  velocity is active and plastic till is not) ends as \<open>MASK_SHEET\<close> when the sum of the
  \<open>PismModMask\<close> codes of its eight box-stencil neighbours \<open>(i \<plusminus> 1, j \<plusminus> 1)\<close>,
  \<open>(i \<plusminus> 1, j)\<close>, \<open>(i, j \<plusminus> 1)\<close> is at most seven times the code of \<open>MASK_SHEET\<close> plus
  the code of \<open>MASK_DRAGGING_SHEET\<close>, and as \<open>MASK_DRAGGING_SHEET\<close> otherwise, never as
  \<open>MASK_FLOATING\<close>. The neighbours are read in place (\<open>seen\<close> below): an owned neighbour
  that the loop has already visited contributes its new mask, every other neighbour its
  input mask.
\<close>

theorem C4_unknown_resolved:
  assumes "ocean m = Some oc"
    and "\<forall>i j. owned (grid m) i j \<longrightarrow> 0 \<le> vH m i j"
    and "is_dry_simulation (config m) \<longrightarrow>
           (\<forall>i j. owned (grid m) i j \<longrightarrow> vMask m i j \<noteq> MASK_UNKNOWN)"
  shows "\<exists>m'. updateSurfaceElevationAndMask D incoming_h incoming_mask m = Inr m'
     \<and> (\<forall>i j. owned (grid m) i j \<longrightarrow> vMask m' i j \<noteq> MASK_UNKNOWN)
     \<and> (is_dry_simulation (config m) \<longrightarrow>
           (\<forall>i j. owned (grid m) i j \<longrightarrow> vMask m' i j = vMask m i j))
     \<and> (\<forall>i j. owned (grid m) i j \<and> \<not> is_dry_simulation (config m)
            \<and> vMask m i j \<noteq> MASK_OCEAN_AT_TIME_0 \<and> is_floating D (vMask m i j)
            \<and> vbed m i j + vH m i j
                > sea_level_elevation oc
                    + (1 - ice_rho m / sea_water_density (config m)) * vH m i j + 1
            \<and> use_ssa_velocity (config m) \<and> \<not> do_plastic_till (config m)
          \<longrightarrow> vMask m' i j \<noteq> MASK_FLOATING
              \<and> (let seen = (\<lambda>i' j'. if owned (grid m) i' j' \<and> (i' < i \<or> i' = i \<and> j' < j)
                                       then vMask m' i' j' else vMask m i' j')
                 in vMask m' i j =
                      (if PismModMask D (seen (i - 1) (j + 1)) + PismModMask D (seen i (j + 1))
                            + PismModMask D (seen (i + 1) (j + 1))
                          + PismModMask D (seen (i - 1) j) + PismModMask D (seen (i + 1) j)
                          + PismModMask D (seen (i - 1) (j - 1)) + PismModMask D (seen i (j - 1))
                            + PismModMask D (seen (i + 1) (j - 1))
                          \<le> 7 * mask_value D MASK_SHEET + mask_value D MASK_DRAGGING_SHEET
                       then MASK_SHEET else MASK_DRAGGING_SHEET)))"
proof -
  obtain m' where m': "updateSurfaceElevationAndMask D incoming_h incoming_mask m = Inr m'"
    using update_total[OF assms(1,2)] by blast
  obtain oc' l where oc': "ocean m = Some oc'"
    and l: "cell_loop (update_cell D (sea_level_elevation oc')) (owned_cells (grid m)) m = Inr l"
    and ml: "m' = l\<lparr>vh := ghostComm (grid m) incoming_h (vh l),
                    vMask := ghostComm (grid m) incoming_mask (vMask l)\<rparr>"
    by (rule update_Inr[OF m'])
  have oc: "oc' = oc" using oc' assms(1) by simp
  have own: "vMask m' i j = vMask l i j" if "owned (grid m) i j" for i j
    using that by (simp add: ml ghostComm_def)
  have A: "vMask m' i j \<noteq> MASK_UNKNOWN" if o: "owned (grid m) i j" for i j
  proof (cases "is_dry_simulation (config m)")
    case True
    with assms(3) o have "vMask m i j \<noteq> MASK_UNKNOWN" by blast
    with update_dry_mask[OF m' True o] show ?thesis by simp
  next
    case False
    obtain oc'' s1 s2 where s: "ocean m = Some oc''"
      "update_cell D (sea_level_elevation oc'') s1 i j = Inr s2"
      "vMask s1 i j = vMask m i j" "vH s1 = vH m" "vbed s1 = vbed m"
      "config s1 = config m" "ice_rho s1 = ice_rho m"
      "vMask m' i j = vMask s2 i j" "vh m' i j = vh s2 i j"
      by (rule update_at_owned[OF m' o])
    have "\<not> is_dry_simulation (config s1)" using False s(6) by simp
    from update_cell_no_unknown[OF s(2) this] s(8) show ?thesis by simp
  qed
  have Dry: "is_dry_simulation (config m) \<longrightarrow>
           (\<forall>i j. owned (grid m) i j \<longrightarrow> vMask m' i j = vMask m i j)"
    using update_dry_mask[OF m'] by blast
  have B: "vMask m' i j \<noteq> MASK_FLOATING
              \<and> (let seen = (\<lambda>i' j'. if owned (grid m) i' j' \<and> (i' < i \<or> i' = i \<and> j' < j)
                                       then vMask m' i' j' else vMask m i' j')
                 in vMask m' i j =
                      (if PismModMask D (seen (i - 1) (j + 1)) + PismModMask D (seen i (j + 1))
                            + PismModMask D (seen (i + 1) (j + 1))
                          + PismModMask D (seen (i - 1) j) + PismModMask D (seen (i + 1) j)
                          + PismModMask D (seen (i - 1) (j - 1)) + PismModMask D (seen i (j - 1))
                            + PismModMask D (seen (i + 1) (j - 1))
                          \<le> 7 * mask_value D MASK_SHEET + mask_value D MASK_DRAGGING_SHEET
                       then MASK_SHEET else MASK_DRAGGING_SHEET))"
    if h: "owned (grid m) i j \<and> \<not> is_dry_simulation (config m)
            \<and> vMask m i j \<noteq> MASK_OCEAN_AT_TIME_0 \<and> is_floating D (vMask m i j)
            \<and> vbed m i j + vH m i j
                > sea_level_elevation oc
                    + (1 - ice_rho m / sea_water_density (config m)) * vH m i j + 1
            \<and> use_ssa_velocity (config m) \<and> \<not> do_plastic_till (config m)" for i j
  proof -
    from h have o: "owned (grid m) i j" by simp
    obtain s1 s2 where s: "update_cell D (sea_level_elevation oc') s1 i j = Inr s2"
      "vMask s1 = (\<lambda>i' j'. if owned (grid m) i' j' \<and> (i' < i \<or> i' = i \<and> j' < j)
                              then vMask l i' j' else vMask m i' j')"
      "vH s1 = vH m" "vbed s1 = vbed m" "config s1 = config m" "ice_rho s1 = ice_rho m"
      "vMask l i j = vMask s2 i j"
      by (rule update_loop_mask_at_cell[OF l o])
    define seen where
      "seen = (\<lambda>i' j'. if owned (grid m) i' j' \<and> (i' < i \<or> i' = i \<and> j' < j)
                        then vMask m' i' j' else vMask m i' j')"
    have k: "vMask s1 i j = vMask m i j" by (simp add: s(2))
    have msk: "vMask s1 = seen"
      unfolding s(2) seen_def using own by (auto simp: fun_eq_iff)
    have 1: "\<not> is_dry_simulation (config s1)" using h s(5) by simp
    have 2: "vMask s1 i j \<noteq> MASK_OCEAN_AT_TIME_0" using h k by simp
    have 3: "is_floating D (vMask s1 i j)" using h k by simp
    have 4: "hgrounded s1 i j > hfloating s1 (sea_level_elevation oc') i j + 1"
      using h s(3-6) oc by (simp add: hgrounded_def hfloating_def)
    have 5: "use_ssa_velocity (config s1)" "\<not> do_plastic_till (config s1)"
      using h s(5) by simp_all
    have v: "vMask s2 i j =
       (if neighmasksum D (vMask s1) i j
             \<le> 7 * mask_value D MASK_SHEET + mask_value D MASK_DRAGGING_SHEET
        then MASK_SHEET else MASK_DRAGGING_SHEET)"
      by (rule update_cell_vote[OF s(1) 1 2 3 4 5])
    have e: "vMask m' i j = vMask s2 i j" using own[OF o] s(7) by simp
    have nf: "vMask m' i j \<noteq> MASK_FLOATING" unfolding e v by simp
    have "vMask m' i j =
            (if PismModMask D (seen (i - 1) (j + 1)) + PismModMask D (seen i (j + 1))
                  + PismModMask D (seen (i + 1) (j + 1))
                + PismModMask D (seen (i - 1) j) + PismModMask D (seen (i + 1) j)
                + PismModMask D (seen (i - 1) (j - 1)) + PismModMask D (seen i (j - 1))
                  + PismModMask D (seen (i + 1) (j - 1))
                \<le> 7 * mask_value D MASK_SHEET + mask_value D MASK_DRAGGING_SHEET
             then MASK_SHEET else MASK_DRAGGING_SHEET)"
      unfolding e v msk neighmasksum_def ..
    with nf show ?thesis unfolding Let_def seen_def by blast
  qed
  from m' A Dry B show ?thesis by blast
qed


text \<open>An instance: the single owned cell floats on input and grounds, SSA velocity is
  active and plastic till is not; its eight neighbours are ghost points marked
  \<open>MASK_SHEET\<close>, the sum of their codes is \<open>8 \<le> 7 + 2\<close>, and the cell ends as
  \<open>MASK_SHEET\<close>.\<close>

theorem C4_unknown_resolved_witness:
  "ocean example_model \<noteq> None
   \<and> owned (grid example_model) 0 0
   \<and> 0 \<le> vH example_model 0 0
   \<and> is_floating example_declarations MASK_FLOATING
   \<and> (\<exists>m'. updateSurfaceElevationAndMask example_declarations (\<lambda>i j. 0) (\<lambda>i j. MASK_SHEET)
              (example_model\<lparr>config := example_config\<lparr>use_ssa_velocity := True\<rparr>,
                 vMask := (\<lambda>i j. if i = 0 \<and> j = 0 then MASK_FLOATING else MASK_SHEET)\<rparr>)
               = Inr m'
          \<and> vMask m' 0 0 = MASK_SHEET)"
proof -
  let ?D = example_declarations
  let ?m = "example_model\<lparr>config := example_config\<lparr>use_ssa_velocity := True\<rparr>,
                 vMask := (\<lambda>i j. if i = 0 \<and> j = 0 then MASK_FLOATING else MASK_SHEET)\<rparr>"
  let ?oc = "\<lparr> sea_level_elevation = 0, shelf_base_mass_flux = (\<lambda>i j. 0) \<rparr>"
  have g: "\<And>i j. owned (grid example_model) i j \<longleftrightarrow> i = 0 \<and> j = 0"
    by (auto simp: example_model_def owned_def)
  have 1: "ocean ?m = Some ?oc" by (simp add: example_model_def)
  have 2: "\<forall>i j. owned (grid ?m) i j \<longrightarrow> 0 \<le> vH ?m i j" by (simp add: example_model_def)
  have 3: "is_dry_simulation (config ?m) \<longrightarrow>
           (\<forall>i j. owned (grid ?m) i j \<longrightarrow> vMask ?m i j \<noteq> MASK_UNKNOWN)"
    by (simp add: example_config_def)
  from C4_unknown_resolved[OF 1 2 3, of ?D "\<lambda>i j. 0" "\<lambda>i j. MASK_SHEET"]
  obtain m' where m': "updateSurfaceElevationAndMask ?D (\<lambda>i j. 0) (\<lambda>i j. MASK_SHEET) ?m = Inr m'"
    and v: "\<forall>i j. owned (grid ?m) i j \<and> \<not> is_dry_simulation (config ?m)
            \<and> vMask ?m i j \<noteq> MASK_OCEAN_AT_TIME_0 \<and> is_floating ?D (vMask ?m i j)
            \<and> vbed ?m i j + vH ?m i j
                > sea_level_elevation ?oc
                    + (1 - ice_rho ?m / sea_water_density (config ?m)) * vH ?m i j + 1
            \<and> use_ssa_velocity (config ?m) \<and> \<not> do_plastic_till (config ?m)
          \<longrightarrow> vMask m' i j \<noteq> MASK_FLOATING
              \<and> (let seen = (\<lambda>i' j'. if owned (grid ?m) i' j' \<and> (i' < i \<or> i' = i \<and> j' < j)
                                       then vMask m' i' j' else vMask ?m i' j')
                 in vMask m' i j =
                      (if PismModMask ?D (seen (i - 1) (j + 1)) + PismModMask ?D (seen i (j + 1))
                            + PismModMask ?D (seen (i + 1) (j + 1))
                          + PismModMask ?D (seen (i - 1) j) + PismModMask ?D (seen (i + 1) j)
                          + PismModMask ?D (seen (i - 1) (j - 1)) + PismModMask ?D (seen i (j - 1))
                            + PismModMask ?D (seen (i + 1) (j - 1))
                          \<le> 7 * mask_value ?D MASK_SHEET + mask_value ?D MASK_DRAGGING_SHEET
                       then MASK_SHEET else MASK_DRAGGING_SHEET))"
    by blast
  have h: "owned (grid ?m) 0 0 \<and> \<not> is_dry_simulation (config ?m)
            \<and> vMask ?m 0 0 \<noteq> MASK_OCEAN_AT_TIME_0 \<and> is_floating ?D (vMask ?m 0 0)
            \<and> vbed ?m 0 0 + vH ?m 0 0
                > sea_level_elevation ?oc
                    + (1 - ice_rho ?m / sea_water_density (config ?m)) * vH ?m 0 0 + 1
            \<and> use_ssa_velocity (config ?m) \<and> \<not> do_plastic_till (config ?m)"
    by (simp add: g example_config_def example_declarations_def) (simp add: example_model_def)
  from v h have "let seen = (\<lambda>i' j'. if owned (grid ?m) i' j' \<and> (i' < 0 \<or> i' = 0 \<and> j' < 0)
                                       then vMask m' i' j' else vMask ?m i' j')
                 in vMask m' 0 0 =
                      (if PismModMask ?D (seen (0 - 1) (0 + 1)) + PismModMask ?D (seen 0 (0 + 1))
                            + PismModMask ?D (seen (0 + 1) (0 + 1))
                          + PismModMask ?D (seen (0 - 1) 0) + PismModMask ?D (seen (0 + 1) 0)
                          + PismModMask ?D (seen (0 - 1) (0 - 1)) + PismModMask ?D (seen 0 (0 - 1))
                            + PismModMask ?D (seen (0 + 1) (0 - 1))
                          \<le> 7 * mask_value ?D MASK_SHEET + mask_value ?D MASK_DRAGGING_SHEET
                       then MASK_SHEET else MASK_DRAGGING_SHEET)"
    by blast
  then have "vMask m' 0 0 = MASK_SHEET"
    by (simp add: Let_def g example_declarations_def example_mask_value_def)
  with m' show ?thesis
    by (simp add: g example_declarations_def) (simp add: example_model_def)
qed

subsection \<open>Cells marked as ocean at time 0\<close>

lemma massCont_mask:
  assumes "massContExplicitStep D incoming_H m = Inr m'"
  shows "vMask m' = vMask m" and "grid m' = grid m"
proof -
  obtain sf oc where so: "surface m = Some sf" "ocean m = Some oc"
    by (rule massContExplicitStep_Inr[OF assms])
  from assms show "vMask m' = vMask m" "grid m' = grid m"
    unfolding massContExplicitStep_eq[OF so] by auto
qed

lemma update_ocean0:
  assumes "updateSurfaceElevationAndMask D ih im m = Inr m'" and "owned (grid m) i j"
    and "vMask m i j = MASK_OCEAN_AT_TIME_0"
  shows "vMask m' i j = MASK_OCEAN_AT_TIME_0"
    and "ocean m = Some oc \<Longrightarrow> \<not> is_dry_simulation (config m) \<Longrightarrow>
           vh m' i j = sea_level_elevation oc
                        + (1 - ice_rho m' / sea_water_density (config m')) * vH m' i j"
proof -
  obtain oc' s1 s2 where s: "ocean m = Some oc'"
    "update_cell D (sea_level_elevation oc') s1 i j = Inr s2"
    "vMask s1 i j = vMask m i j" "vH s1 = vH m" "vbed s1 = vbed m"
    "config s1 = config m" "ice_rho s1 = ice_rho m"
    "vMask m' i j = vMask s2 i j" "vh m' i j = vh s2 i j"
    by (rule update_at_owned[OF assms(1,2)])
  have k: "vMask s1 i j = MASK_OCEAN_AT_TIME_0" using s(3) assms(3) by simp
  show "vMask m' i j = MASK_OCEAN_AT_TIME_0"
    using update_cell_ocean0(1)[OF s(2) k] s(8) by simp
  assume oc: "ocean m = Some oc" and nd: "\<not> is_dry_simulation (config m)"
  have "vh s2 i j = hfloating s1 (sea_level_elevation oc') i j"
    using update_cell_ocean0(2)[OF s(2) k] nd s(6) by simp
  moreover have "oc' = oc" using oc s(1) by simp
  ultimately show "vh m' i j = sea_level_elevation oc
                        + (1 - ice_rho m' / sea_water_density (config m')) * vH m' i j"
    using s(4,6,7,9) update_inputs[OF assms(1)] by (simp add: hfloating_def)
qed

text \<open>
  Claim C9 (as amended). An owned cell whose mask is \<open>MASK_OCEAN_AT_TIME_0\<close> keeps that
  mask through any number of calls of \<open>updateSurfaceElevationAndMask\<close> and
  \<open>massContExplicitStep\<close>, in any configuration (the second routine does not write the
  mask at all). After each call of \<open>updateSurfaceElevationAndMask\<close> outside
  dry-simulation mode the surface elevation of such a cell is
  \<open>sea_level + (1 - rho_ice/rho_ocean) H\<close>, whatever the bed elevation.
\<close>

theorem C9_ocean_exclusion:
  "(evolves D m0 m \<and> owned (grid m0) i j \<and> vMask m0 i j = MASK_OCEAN_AT_TIME_0
      \<longrightarrow> vMask m i j = MASK_OCEAN_AT_TIME_0 \<and> grid m = grid m0)
   \<and> (updateSurfaceElevationAndMask D incoming_h incoming_mask m1 = Inr m2
        \<and> owned (grid m1) i j \<and> vMask m1 i j = MASK_OCEAN_AT_TIME_0
        \<and> ocean m1 = Some oc \<and> \<not> is_dry_simulation (config m1)
      \<longrightarrow> vMask m2 i j = MASK_OCEAN_AT_TIME_0
          \<and> vh m2 i j = sea_level_elevation oc
                          + (1 - ice_rho m2 / sea_water_density (config m2)) * vH m2 i j)
   \<and> (massContExplicitStep D incoming_H m1 = Inr m3 \<longrightarrow> vMask m3 = vMask m1)"
proof (intro conjI impI)
  assume a: "evolves D m0 m \<and> owned (grid m0) i j \<and> vMask m0 i j = MASK_OCEAN_AT_TIME_0"
  then have "evolves D m0 m" by simp
  then have "grid m = grid m0 \<and> vMask m i j = MASK_OCEAN_AT_TIME_0"
  proof (induction rule: evolves.induct)
    case start
    then show ?case using a by simp
  next
    case (geometry_update m1 m1' incoming_h incoming_mask m2)
    have o: "owned (grid m1') i j" and k: "vMask m1' i j = MASK_OCEAN_AT_TIME_0"
      using geometry_update a by simp_all
    from update_ocean0(1)[OF geometry_update(4) o k] update_inputs[OF geometry_update(4)]
    show ?case using geometry_update by simp
  next
    case (mass_continuity m1 m1' incoming_H m2)
    from massCont_mask[OF mass_continuity(4)] show ?case using mass_continuity by simp
  qed
  then show "vMask m i j = MASK_OCEAN_AT_TIME_0" "grid m = grid m0" by simp_all
next
  assume a: "updateSurfaceElevationAndMask D incoming_h incoming_mask m1 = Inr m2
        \<and> owned (grid m1) i j \<and> vMask m1 i j = MASK_OCEAN_AT_TIME_0
        \<and> ocean m1 = Some oc \<and> \<not> is_dry_simulation (config m1)"
  then have u: "updateSurfaceElevationAndMask D incoming_h incoming_mask m1 = Inr m2"
    and o: "owned (grid m1) i j" and k: "vMask m1 i j = MASK_OCEAN_AT_TIME_0"
    and oc: "ocean m1 = Some oc" and nd: "\<not> is_dry_simulation (config m1)" by simp_all
  show "vMask m2 i j = MASK_OCEAN_AT_TIME_0" by (rule update_ocean0(1)[OF u o k])
  show "vh m2 i j = sea_level_elevation oc
                          + (1 - ice_rho m2 / sea_water_density (config m2)) * vH m2 i j"
    by (rule update_ocean0(2)[OF u o k oc nd])
next
  assume "massContExplicitStep D incoming_H m1 = Inr m3"
  then show "vMask m3 = vMask m1" by (rule massCont_mask(1))
qed


theorem C9_ocean_exclusion_witness:
  "owned (grid example_model) 0 0
   \<and> vMask (example_model\<lparr>vMask := (\<lambda>i j. MASK_OCEAN_AT_TIME_0)\<rparr>) 0 0 = MASK_OCEAN_AT_TIME_0
   \<and> ocean example_model \<noteq> None
   \<and> \<not> is_dry_simulation (config example_model)
   \<and> (\<exists>m1 m2.
         updateSurfaceElevationAndMask example_declarations (\<lambda>i j. 0)
             (\<lambda>i j. MASK_OCEAN_AT_TIME_0)
             (example_model\<lparr>vMask := (\<lambda>i j. MASK_OCEAN_AT_TIME_0)\<rparr>) = Inr m1
         \<and> massContExplicitStep example_declarations (\<lambda>i j. 0) m1 = Inr m2
         \<and> evolves example_declarations
              (example_model\<lparr>vMask := (\<lambda>i j. MASK_OCEAN_AT_TIME_0)\<rparr>) m2
         \<and> vMask m2 0 0 = MASK_OCEAN_AT_TIME_0
         \<and> vh m1 0 0 = 8)"
proof -
  let ?D = example_declarations
  let ?m0 = "example_model\<lparr>vMask := (\<lambda>i j. MASK_OCEAN_AT_TIME_0)\<rparr>"
  let ?oc = "\<lparr> sea_level_elevation = 0, shelf_base_mass_flux = (\<lambda>i j. 0) \<rparr>"
  let ?sf = "\<lparr> ice_surface_mass_flux = (\<lambda>i j. 1 / 100) \<rparr>"
  have o: "owned (grid ?m0) 0 0" by (simp add: example_model_def owned_def)
  have k: "vMask ?m0 0 0 = MASK_OCEAN_AT_TIME_0" by simp
  have oc: "ocean ?m0 = Some ?oc" and sf: "surface ?m0 = Some ?sf"
    by (simp_all add: example_model_def)
  have nd: "\<not> is_dry_simulation (config ?m0)"
    by (simp add: example_model_def example_config_def)
  have p: "\<forall>i j. owned (grid ?m0) i j \<longrightarrow> 0 \<le> vH ?m0 i j" by (simp add: example_model_def)
  obtain m1 where m1: "updateSurfaceElevationAndMask ?D (\<lambda>i j. 0)
      (\<lambda>i j. MASK_OCEAN_AT_TIME_0) ?m0 = Inr m1"
    using update_total[OF oc p] by blast
  note i1 = update_inputs[OF m1]
  have "surface m1 = Some ?sf" "ocean m1 = Some ?oc" using i1 oc sf by simp_all
  from massContExplicitStep_eq[OF this, of ?D "\<lambda>i j. 0"]
  obtain m2 where m2: "massContExplicitStep ?D (\<lambda>i j. 0) m1 = Inr m2" by blast
  have e1: "evolves ?D ?m0 m1"
    by (rule evolves.geometry_update[OF evolves.start refl refl m1])
  have e2: "evolves ?D ?m0 m2"
    by (rule evolves.mass_continuity[OF e1 refl refl m2])
  from C9_ocean_exclusion[of ?D ?m0 m2 0 0] e2 o k
  have r1: "vMask m2 0 0 = MASK_OCEAN_AT_TIME_0" by blast
  from C9_ocean_exclusion[of ?D ?m0 ?m0 0 0 "\<lambda>i j. 0" "\<lambda>i j. MASK_OCEAN_AT_TIME_0" ?m0 m1 ?oc]
    m1 o k oc nd
  have "vh m1 0 0 = sea_level_elevation ?oc
                          + (1 - ice_rho m1 / sea_water_density (config m1)) * vH m1 0 0"
    by blast
  then have r2: "vh m1 0 0 = 8"
    using i1 by (simp add: example_model_def example_config_def)
  from m1 m2 e2 r1 r2 o k oc nd show ?thesis
    by (simp add: example_model_def)
qed

text \<open>
  In dry-simulation mode the claim's statement about the surface fails: the cell marked
  \<open>MASK_OCEAN_AT_TIME_0\<close> with thickness \<open>100\<close> on a bed at \<open>0\<close> gets \<open>h = bed + H = 100\<close>,
  not the flotation height \<open>8\<close>.
\<close>

theorem C9_counterexample:
  "owned (grid example_model) 0 0
   \<and> vMask (example_model\<lparr>vMask := (\<lambda>i j. MASK_OCEAN_AT_TIME_0)\<rparr>) 0 0 = MASK_OCEAN_AT_TIME_0
   \<and> \<not> isl (updateSurfaceElevationAndMask example_declarations (\<lambda>i j. 0)
              (\<lambda>i j. MASK_OCEAN_AT_TIME_0)
              (example_model\<lparr>config := example_config\<lparr>is_dry_simulation := True\<rparr>,
                 vMask := (\<lambda>i j. MASK_OCEAN_AT_TIME_0)\<rparr>))
   \<and> vh (projr (updateSurfaceElevationAndMask example_declarations (\<lambda>i j. 0)
                   (\<lambda>i j. MASK_OCEAN_AT_TIME_0)
                   (example_model\<lparr>config := example_config\<lparr>is_dry_simulation := True\<rparr>,
                      vMask := (\<lambda>i j. MASK_OCEAN_AT_TIME_0)\<rparr>))) 0 0
       \<noteq> 0 + (1 - 920 / 1000) * 100"
  by (simp add: updateSurfaceElevationAndMask_def example_model_def
      example_config_def owned_cells_single owned_def update_cell_def ghostComm_def set2_def
      hgrounded_def hfloating_def)


subsection \<open>Mass balance and sliding in the mass-continuity step\<close>

lemma massContExplicitStep_owned:
  assumes "surface m = Some sf" and "ocean m = Some oc"
  shows "\<exists>m'. massContExplicitStep D incoming_H m = Inr m'
    \<and> (\<forall>i j. owned (grid m) i j \<longrightarrow>
           vH m' i j = massCont_cell D m (ice_surface_mass_flux sf) (shelf_base_mass_flux oc)
                         (vH m i j) i j)"
  unfolding massContExplicitStep_eq[OF assms] by simp

lemma divQ_sliding_zero:
  assumes "vub m = (\<lambda>i j. 0)" and "vvb m = (\<lambda>i j. 0)"
  shows "divQ_sliding m i j = 0"
  by (simp add: divQ_sliding_def assms)

lemma divQ_SIA_zero:
  assumes "\<not> computeSIAVelocities m \<or> (vuvbar0 m = (\<lambda>i j. 0) \<and> vuvbar1 m = (\<lambda>i j. 0))"
  shows "divQ_SIA D m i j = 0"
  using assms by (auto simp: divQ_SIA_def split: prod.splits)

lemma massCont_cell_plain:
  assumes "\<not> include_bmr_in_continuity (config m)" and "\<not> ocean_kill (config m)"
    and "\<not> floating_ice_killed (config m)"
  shows "massCont_cell D m acab sbmf h i j = max 0 (h + (acab i j - divQ D m i j) * dt m)"
  using assms by (simp add: massCont_cell_def Let_def max_def)

text \<open>
  Claim C5. With sliding velocities identically zero, the SIA velocity computation
  disabled or the staggered SIA fluxes identically zero, basal melt, ocean-kill and
  float-kill all disabled and a constant surface mass balance \<open>a\<close>, the routine returns
  \<open>H' = max 0 (H + a dt)\<close> at every owned cell; with \<open>a = 0\<close> and a non-negative input
  thickness, \<open>H' = H\<close> there. The grid spacings are non-zero.
\<close>

theorem C5_mass_balance_only:
  assumes "surface m = Some sf" and "ocean m = Some oc"
    and "ice_surface_mass_flux sf = (\<lambda>i j. a)"
    and "vub m = (\<lambda>i j. 0)" and "vvb m = (\<lambda>i j. 0)"
    and "\<not> computeSIAVelocities m \<or> (vuvbar0 m = (\<lambda>i j. 0) \<and> vuvbar1 m = (\<lambda>i j. 0))"
    and "\<not> include_bmr_in_continuity (config m)" and "\<not> ocean_kill (config m)"
    and "\<not> floating_ice_killed (config m)"
    and "dx (grid m) \<noteq> 0" and "dy (grid m) \<noteq> 0"
  shows "\<exists>m'. massContExplicitStep D incoming_H m = Inr m'
     \<and> (\<forall>i j. owned (grid m) i j \<longrightarrow> vH m' i j = max 0 (vH m i j + a * dt m))
     \<and> (a = 0 \<and> (\<forall>i j. owned (grid m) i j \<longrightarrow> 0 \<le> vH m i j)
          \<longrightarrow> (\<forall>i j. owned (grid m) i j \<longrightarrow> vH m' i j = vH m i j))"
proof -
  obtain m' where m': "massContExplicitStep D incoming_H m = Inr m'"
    and c: "\<forall>i j. owned (grid m) i j \<longrightarrow>
           vH m' i j = massCont_cell D m (ice_surface_mass_flux sf) (shelf_base_mass_flux oc)
                         (vH m i j) i j"
    using massContExplicitStep_owned[OF assms(1,2)] by blast
  have z: "divQ D m i j = 0" for i j
    by (simp add: divQ_def divQ_sliding_zero[OF assms(4,5)] divQ_SIA_zero[OF assms(6)])
  have A: "vH m' i j = max 0 (vH m i j + a * dt m)" if "owned (grid m) i j" for i j
    using c that by (simp add: massCont_cell_plain[OF assms(7-9)] z assms(3))
  have B: "vH m' i j = vH m i j"
    if "a = 0 \<and> (\<forall>i j. owned (grid m) i j \<longrightarrow> 0 \<le> vH m i j)" and o: "owned (grid m) i j"
    for i j
  proof -
    have "0 \<le> vH m i j" using that by blast
    with A[OF o] that(1) show ?thesis by simp
  qed
  from m' A B show ?thesis by blast
qed

theorem C5_mass_balance_only_witness:
  "surface example_model \<noteq> None \<and> ocean example_model \<noteq> None
   \<and> vub example_model 0 0 = 0 \<and> vvb example_model 0 0 = 0
   \<and> vuvbar0 example_model 0 0 = 0 \<and> vuvbar1 example_model 0 0 = 0
   \<and> \<not> include_bmr_in_continuity (config example_model)
   \<and> \<not> ocean_kill (config example_model)
   \<and> \<not> floating_ice_killed (config example_model)
   \<and> dx (grid example_model) \<noteq> 0 \<and> dy (grid example_model) \<noteq> 0
   \<and> owned (grid example_model) 0 0
   \<and> (\<exists>m'. massContExplicitStep example_declarations (\<lambda>i j. 0) example_model = Inr m'
          \<and> vH m' 0 0 = 10001 / 100)"
proof -
  let ?sf = "\<lparr> ice_surface_mass_flux = (\<lambda>i j. 1 / 100) \<rparr>"
  let ?oc = "\<lparr> sea_level_elevation = 0, shelf_base_mass_flux = (\<lambda>i j. 0) \<rparr>"
  have 1: "surface example_model = Some ?sf" "ocean example_model = Some ?oc"
    by (simp_all add: example_model_def)
  have 2: "ice_surface_mass_flux ?sf = (\<lambda>i j. 1 / 100)" by simp
  have 3: "vub example_model = (\<lambda>i j. 0)" "vvb example_model = (\<lambda>i j. 0)"
    by (simp_all add: example_model_def)
  have 4: "\<not> computeSIAVelocities example_model
      \<or> (vuvbar0 example_model = (\<lambda>i j. 0) \<and> vuvbar1 example_model = (\<lambda>i j. 0))"
    by (simp add: example_model_def)
  have 5: "\<not> include_bmr_in_continuity (config example_model)"
    "\<not> ocean_kill (config example_model)" "\<not> floating_ice_killed (config example_model)"
    by (simp_all add: example_model_def example_config_def)
  have 6: "dx (grid example_model) \<noteq> 0" "dy (grid example_model) \<noteq> 0"
    by (simp_all add: example_model_def)
  have o: "owned (grid example_model) 0 0" by (simp add: example_model_def owned_def)
  from C5_mass_balance_only[OF 1 2 3 4 5 6, of example_declarations "\<lambda>i j. 0"] o
  obtain m' where m': "massContExplicitStep example_declarations (\<lambda>i j. 0) example_model = Inr m'"
    and "vH m' 0 0 = max 0 (vH example_model 0 0 + 1 / 100 * dt example_model)"
    by blast
  then have "vH m' 0 0 = 10001 / 100" by (simp add: example_model_def)
  with m' 1 3 4 5 6 o show ?thesis by (simp add: example_model_def)
qed


lemma divQ_sliding_spec:
  "divQ_sliding m i j = advection_x_spec m i j + advection_y_spec m i j + dilation_spec m i j"
  by (simp add: divQ_sliding_def advection_x_spec_def advection_y_spec_def dilation_spec_def)

lemma advection_x_upstream:
  "advection_x_spec m i j
     = \<bar>vub m i j\<bar> * (vH m i j - vH m (upstream_x m i j) j) / dx (grid m)"
  by (simp add: advection_x_spec_def upstream_x_def algebra_simps)

lemma advection_y_upstream:
  "advection_y_spec m i j
     = \<bar>vvb m i j\<bar> * (vH m i j - vH m i (upstream_y m i j)) / dy (grid m)"
  by (simp add: advection_y_spec_def upstream_y_def algebra_simps)

text \<open>
  Claim C6. The flux divergence that \<open>massContExplicitStep\<close> uses at a cell is the SIA
  part plus the sliding contribution, and the sliding contribution is the upwinded
  advective term \<open>ub (H(i+1,j) - H(i,j)) / dx\<close> for \<open>ub < 0\<close> and
  \<open>ub (H(i,j) - H(i-1,j)) / dx\<close> otherwise (likewise in \<open>y\<close> with \<open>vb\<close>) plus the local
  thickness times the centred velocity divergence. The advective term is the speed times
  the thickness difference to the upstream neighbour, the one that the velocity points
  away from. With basal melt and both calving rules off, the new thickness of an owned
  cell is \<open>max 0 (H + (M - divQ) dt)\<close> with this divergence.
\<close>

theorem C6_sliding_upwind:
  "divQ D m i j
     = divQ_SIA D m i j
       + (advection_x_spec m i j + advection_y_spec m i j + dilation_spec m i j)
   \<and> advection_x_spec m i j
       = \<bar>vub m i j\<bar> * (vH m i j - vH m (upstream_x m i j) j) / dx (grid m)
   \<and> advection_y_spec m i j
       = \<bar>vvb m i j\<bar> * (vH m i j - vH m i (upstream_y m i j)) / dy (grid m)
   \<and> (surface m = Some sf \<and> ocean m = Some oc \<and> owned (grid m) i j
        \<and> \<not> include_bmr_in_continuity (config m) \<and> \<not> ocean_kill (config m)
        \<and> \<not> floating_ice_killed (config m)
      \<longrightarrow> (\<exists>m'. massContExplicitStep D incoming_H m = Inr m'
             \<and> vH m' i j =
                 max 0 (vH m i j
                        + (ice_surface_mass_flux sf i j
                            - (divQ_SIA D m i j + advection_x_spec m i j
                               + advection_y_spec m i j + dilation_spec m i j)) * dt m)))"
proof (intro conjI impI)
  show d: "divQ D m i j
     = divQ_SIA D m i j
       + (advection_x_spec m i j + advection_y_spec m i j + dilation_spec m i j)"
    by (simp add: divQ_def divQ_sliding_spec)
  show "advection_x_spec m i j
       = \<bar>vub m i j\<bar> * (vH m i j - vH m (upstream_x m i j) j) / dx (grid m)"
    by (rule advection_x_upstream)
  show "advection_y_spec m i j
       = \<bar>vvb m i j\<bar> * (vH m i j - vH m i (upstream_y m i j)) / dy (grid m)"
    by (rule advection_y_upstream)
  assume a: "surface m = Some sf \<and> ocean m = Some oc \<and> owned (grid m) i j
        \<and> \<not> include_bmr_in_continuity (config m) \<and> \<not> ocean_kill (config m)
        \<and> \<not> floating_ice_killed (config m)"
  then have so: "surface m = Some sf" "ocean m = Some oc" and o: "owned (grid m) i j"
    and f: "\<not> include_bmr_in_continuity (config m)" "\<not> ocean_kill (config m)"
    "\<not> floating_ice_killed (config m)" by simp_all
  obtain m' where m': "massContExplicitStep D incoming_H m = Inr m'"
    and c: "\<forall>i j. owned (grid m) i j \<longrightarrow>
           vH m' i j = massCont_cell D m (ice_surface_mass_flux sf) (shelf_base_mass_flux oc)
                         (vH m i j) i j"
    using massContExplicitStep_owned[OF so] by blast
  have "vH m' i j = max 0 (vH m i j
                        + (ice_surface_mass_flux sf i j
                            - (divQ_SIA D m i j + advection_x_spec m i j
                               + advection_y_spec m i j + dilation_spec m i j)) * dt m)"
    using c o by (simp add: massCont_cell_plain[OF f] d add.assoc)
  with m' show "\<exists>m'. massContExplicitStep D incoming_H m = Inr m'
             \<and> vH m' i j =
                 max 0 (vH m i j
                        + (ice_surface_mass_flux sf i j
                            - (divQ_SIA D m i j + advection_x_spec m i j
                               + advection_y_spec m i j + dilation_spec m i j)) * dt m)"
    by blast
qed

text \<open>An instance: velocity \<open>-1\<close> in \<open>x\<close>, thickness \<open>100\<close> at the cell and \<open>90\<close> at its
  upstream neighbour \<open>(1, 0)\<close>; the advective term is \<open>10\<close> and the new thickness
  \<open>100 + (0.01 - 10) = 90.01\<close>.\<close>

theorem C6_sliding_upwind_witness:
  "surface example_model \<noteq> None \<and> ocean example_model \<noteq> None
   \<and> owned (grid example_model) 0 0
   \<and> \<not> include_bmr_in_continuity (config example_model)
   \<and> \<not> ocean_kill (config example_model)
   \<and> \<not> floating_ice_killed (config example_model)
   \<and> (\<exists>m'. massContExplicitStep example_declarations (\<lambda>i j. 0)
              (example_model\<lparr>vH := (\<lambda>i j. if i = 1 then 90 else 100), vub := (\<lambda>i j. - 1)\<rparr>)
               = Inr m'
          \<and> vH m' 0 0 = 9001 / 100)"
proof -
  let ?m = "example_model\<lparr>vH := (\<lambda>i j. if i = 1 then 90 else 100), vub := (\<lambda>i j. - 1)\<rparr>"
  let ?sf = "\<lparr> ice_surface_mass_flux = (\<lambda>i j. 1 / 100) \<rparr>"
  let ?oc = "\<lparr> sea_level_elevation = 0, shelf_base_mass_flux = (\<lambda>i j. 0) \<rparr>"
  have h: "surface ?m = Some ?sf \<and> ocean ?m = Some ?oc \<and> owned (grid ?m) 0 0
        \<and> \<not> include_bmr_in_continuity (config ?m) \<and> \<not> ocean_kill (config ?m)
        \<and> \<not> floating_ice_killed (config ?m)"
    by (simp add: example_model_def example_config_def owned_def)
  have sia: "divQ_SIA example_declarations ?m 0 0 = 0"
    by (simp add: divQ_SIA_def example_model_def split: prod.splits)
  have ax: "advection_x_spec ?m 0 0 = 10"
    by (simp add: advection_x_spec_def example_model_def)
  have ay: "advection_y_spec ?m 0 0 = 0"
    by (simp add: advection_y_spec_def example_model_def)
  have dl: "dilation_spec ?m 0 0 = 0"
    by (simp add: dilation_spec_def example_model_def)
  from C6_sliding_upwind[of example_declarations ?m 0 0 ?sf ?oc "\<lambda>i j. 0"] h
  obtain m' where m': "massContExplicitStep example_declarations (\<lambda>i j. 0) ?m = Inr m'"
    and "vH m' 0 0 =
                 max 0 (vH ?m 0 0
                        + (ice_surface_mass_flux ?sf 0 0
                            - (divQ_SIA example_declarations ?m 0 0 + advection_x_spec ?m 0 0
                               + advection_y_spec ?m 0 0 + dilation_spec ?m 0 0)) * dt ?m)"
    by blast
  then have "vH m' 0 0 = 9001 / 100"
    unfolding sia ax ay dl by (simp add: example_model_def)
  with m' h show ?thesis by (simp add: example_model_def)
qed


subsection \<open>Driving stress\<close>

lemma drivingStress_loop_eq:
  "distinct cs \<Longrightarrow>
   cell_loop (drivingStress_body D m) cs (tx, ty) =
     Inr (\<lambda>i j. if (i, j) \<in> set cs then fst (drivingStress_cell D m i j) else tx i j,
          \<lambda>i j. if (i, j) \<in> set cs then snd (drivingStress_cell D m i j) else ty i j)"
proof (induction cs arbitrary: tx ty)
  case Nil
  then show ?case by simp
next
  case (Cons c cs)
  obtain ci cj where c: "c = (ci, cj)" by (cases c)
  have d: "distinct cs" and n: "(ci, cj) \<notin> set cs" using Cons.prems c by auto
  define tx1 where "tx1 = set2 tx ci cj (fst (drivingStress_cell D m ci cj))"
  define ty1 where "ty1 = set2 ty ci cj (snd (drivingStress_cell D m ci cj))"
  have "cell_loop (drivingStress_body D m) (c # cs) (tx, ty)
      = cell_loop (drivingStress_body D m) cs (tx1, ty1)"
    by (simp add: c drivingStress_body_def tx1_def ty1_def)
  also have "\<dots> =
     Inr (\<lambda>i j. if (i, j) \<in> set cs then fst (drivingStress_cell D m i j) else tx1 i j,
          \<lambda>i j. if (i, j) \<in> set cs then snd (drivingStress_cell D m i j) else ty1 i j)"
    by (rule Cons.IH[OF d])
  also have "(\<lambda>i j. if (i, j) \<in> set cs then fst (drivingStress_cell D m i j) else tx1 i j)
      = (\<lambda>i j. if (i, j) \<in> set (c # cs) then fst (drivingStress_cell D m i j) else tx i j)"
    by (auto simp: fun_eq_iff tx1_def set2_def c)
  also have "(\<lambda>i j. if (i, j) \<in> set cs then snd (drivingStress_cell D m i j) else ty1 i j)
      = (\<lambda>i j. if (i, j) \<in> set (c # cs) then snd (drivingStress_cell D m i j) else ty i j)"
    by (auto simp: fun_eq_iff ty1_def set2_def c)
  finally show ?case .
qed

lemma computeDrivingStress_eq:
  "computeDrivingStress D m vtaudx vtaudy =
     Inr (\<lambda>i j. if owned (grid m) i j then fst (drivingStress_cell D m i j) else vtaudx i j,
          \<lambda>i j. if owned (grid m) i j then snd (drivingStress_cell D m i j) else vtaudy i j)"
  by (simp add: computeDrivingStress_def drivingStress_loop_eq[OF distinct_owned_cells]
      set_owned_cells)

lemma drivingStress_cell_zero:
  "ice_rho m * standard_gravity D * vH m i j \<le> 0 \<Longrightarrow> drivingStress_cell D m i j = (0, 0)"
  by (simp add: drivingStress_cell_def)

text \<open>
  Claim C8. In every configuration the routine returns, and at every owned cell where
  the pressure \<open>rho g H\<close> is \<open>\<le> 0\<close>, in particular where \<open>H = 0\<close>, both components of
  the driving stress that it writes are exactly \<open>0\<close>.
\<close>

theorem C8_driving_stress_zero:
  "\<exists>taudx taudy. computeDrivingStress D m vtaudx vtaudy = Inr (taudx, taudy)
     \<and> (\<forall>i j. owned (grid m) i j \<and> ice_rho m * standard_gravity D * vH m i j \<le> 0
           \<longrightarrow> taudx i j = 0 \<and> taudy i j = 0)
     \<and> (\<forall>i j. owned (grid m) i j \<and> vH m i j = 0 \<longrightarrow> taudx i j = 0 \<and> taudy i j = 0)"
proof -
  let ?tx = "\<lambda>i j. if owned (grid m) i j then fst (drivingStress_cell D m i j) else vtaudx i j"
  let ?ty = "\<lambda>i j. if owned (grid m) i j then snd (drivingStress_cell D m i j) else vtaudy i j"
  have 1: "computeDrivingStress D m vtaudx vtaudy = Inr (?tx, ?ty)"
    by (rule computeDrivingStress_eq)
  have 2: "?tx i j = 0 \<and> ?ty i j = 0"
    if "owned (grid m) i j \<and> ice_rho m * standard_gravity D * vH m i j \<le> 0" for i j
    using that by (simp add: drivingStress_cell_zero)
  have 3: "?tx i j = 0 \<and> ?ty i j = 0" if "owned (grid m) i j \<and> vH m i j = 0" for i j
    using that by (simp add: drivingStress_cell_zero)
  from 1 2 3 show ?thesis by blast
qed

theorem C8_driving_stress_zero_witness:
  "owned (grid example_model) 0 0
   \<and> vH (example_model\<lparr>vH := (\<lambda>i j. if i = 0 \<and> j = 0 then 0 else 100)\<rparr>) 0 0 = 0
   \<and> (\<exists>taudx taudy.
         computeDrivingStress example_declarations
           (example_model\<lparr>vH := (\<lambda>i j. if i = 0 \<and> j = 0 then 0 else 100)\<rparr>)
           (\<lambda>i j. 5) (\<lambda>i j. 7) = Inr (taudx, taudy)
         \<and> taudx 0 0 = 0 \<and> taudy 0 0 = 0)"
proof -
  let ?m = "example_model\<lparr>vH := (\<lambda>i j. if i = 0 \<and> j = 0 then 0 else 100)\<rparr>"
  have o: "owned (grid ?m) 0 0" by (simp add: example_model_def owned_def)
  have z: "vH ?m 0 0 = 0" by simp
  from C8_driving_stress_zero[of example_declarations ?m "\<lambda>i j. 5" "\<lambda>i j. 7"]
  obtain taudx taudy where
    t: "computeDrivingStress example_declarations ?m (\<lambda>i j. 5) (\<lambda>i j. 7) = Inr (taudx, taudy)"
    and "\<forall>i j. owned (grid ?m) i j \<and> vH ?m i j = 0 \<longrightarrow> taudx i j = 0 \<and> taudy i j = 0"
    by blast
  with o z have "taudx 0 0 = 0 \<and> taudy 0 0 = 0" by blast
  with t o z show ?thesis by (simp add: example_model_def)
qed

subsection \<open>The blend factor of the superposition\<close>

lemma inC_fofv_nonneg: "0 \<le> inC_fofv D"
  by (simp add: inC_fofv_def PetscSqr_def)

lemma fofv_arg_nonneg: "0 \<le> inC_fofv D * (PetscSqr u + PetscSqr v)"
  by (intro mult_nonneg_nonneg inC_fofv_nonneg) (simp add: PetscSqr_def)

lemma fofv_bounds: "0 < fofv D u v \<and> fofv D u v \<le> 1"
proof -
  let ?x = "inC_fofv D * (PetscSqr u + PetscSqr v)"
  have 1: "0 \<le> arctan ?x" using fofv_arg_nonneg by (simp add: zero_le_arctan_iff)
  have 2: "arctan ?x < pi / 2" by (rule arctan_ubound)
  have "outC_fofv * arctan ?x = arctan ?x / (pi / 2)" by (simp add: outC_fofv_def)
  also have "\<dots> < 1" using 2 pi_gt_zero by (simp add: field_simps)
  finally have 3: "outC_fofv * arctan ?x < 1" .
  have 4: "0 \<le> outC_fofv * arctan ?x"
    using 1 pi_gt_zero by (simp add: outC_fofv_def)
  from 3 4 show ?thesis by (simp add: fofv_def)
qed

lemma fofv_zero: "fofv D 0 0 = 1"
  by (simp add: fofv_def PetscSqr_def)

lemma fofv_one_iff:
  assumes "secpera D \<noteq> 0"
  shows "fofv D u v = 1 \<longleftrightarrow> u = 0 \<and> v = 0"
proof -
  let ?x = "inC_fofv D * (PetscSqr u + PetscSqr v)"
  have c: "inC_fofv D \<noteq> 0" using assms by (simp add: inC_fofv_def PetscSqr_def)
  have "fofv D u v = 1 \<longleftrightarrow> outC_fofv * arctan ?x = 0" by (simp add: fofv_def)
  also have "\<dots> \<longleftrightarrow> arctan ?x = 0" using pi_gt_zero by (simp add: outC_fofv_def)
  also have "\<dots> \<longleftrightarrow> ?x = 0" by (simp only: arctan_eq_zero_iff)
  also have "\<dots> \<longleftrightarrow> u * u + v * v = 0" using c by (simp add: PetscSqr_def)
  also have "\<dots> \<longleftrightarrow> u = 0 \<and> v = 0" by (simp add: sum_squares_eq_zero_iff)
  finally show ?thesis .
qed

lemma blend_face:
  assumes "0 < f1 \<and> f1 \<le> (1::real)" and "0 < f2 \<and> f2 \<le> 1" and "0 \<le> a" and "0 \<le> b"
  shows "0 \<le> 0.5 * (f1 * a + f2 * b) \<and> 0.5 * (f1 * a + f2 * b) \<le> (a + b) / 2"
proof -
  have "0 \<le> f1 * a" "0 \<le> f2 * b" using assms by simp_all
  moreover have "f1 * a \<le> a" "f2 * b \<le> b"
    using assms by (simp_all add: mult_left_le_one_le)
  ultimately show ?thesis by simp
qed


text \<open>
  Claim C10. For all real velocity components the blend factor
  \<open>f = 1 - (2/\<pi>) atan (c (u\<^sup>2 + v\<^sup>2))\<close> of the superposition branch satisfies
  \<open>0 < f \<le> 1\<close>, with \<open>f = 1\<close> at zero speed (and only there when the constant
  \<open>secpera\<close> is non-zero). Hence each blended face thickness \<open>He, Hw, Hn, Hs\<close> of a
  dragging-sheet cell, built from non-negative cell thicknesses, is non-negative and at
  most the arithmetic mean of the two adjacent thicknesses.
\<close>

theorem C10_blend_factor:
  "0 < fofv D u v \<and> fofv D u v \<le> 1 \<and> fofv D 0 0 = 1
   \<and> (secpera D \<noteq> 0 \<and> fofv D u v = 1 \<longrightarrow> u = 0 \<and> v = 0)
   \<and> (do_superpose (config m) \<and> vMask m i j = MASK_DRAGGING_SHEET
        \<and> 0 \<le> vH m i j \<and> 0 \<le> vH m (i + 1) j \<and> 0 \<le> vH m (i - 1) j
        \<and> 0 \<le> vH m i (j + 1) \<and> 0 \<le> vH m i (j - 1)
        \<and> staggered_thickness D m i j = (He, Hw, Hn, Hs)
      \<longrightarrow> 0 \<le> He \<and> He \<le> (vH m i j + vH m (i + 1) j) / 2
          \<and> 0 \<le> Hw \<and> Hw \<le> (vH m (i - 1) j + vH m i j) / 2
          \<and> 0 \<le> Hn \<and> Hn \<le> (vH m i j + vH m i (j + 1)) / 2
          \<and> 0 \<le> Hs \<and> Hs \<le> (vH m i (j - 1) + vH m i j) / 2)"
proof (intro conjI impI)
  show "0 < fofv D u v" "fofv D u v \<le> 1" using fofv_bounds by simp_all
  show "fofv D 0 0 = 1" by (rule fofv_zero)
next
  assume a: "secpera D \<noteq> 0 \<and> fofv D u v = 1"
  then show "u = 0" "v = 0" using fofv_one_iff[of D u v] by simp_all
next
  assume a: "do_superpose (config m) \<and> vMask m i j = MASK_DRAGGING_SHEET
        \<and> 0 \<le> vH m i j \<and> 0 \<le> vH m (i + 1) j \<and> 0 \<le> vH m (i - 1) j
        \<and> 0 \<le> vH m i (j + 1) \<and> 0 \<le> vH m i (j - 1)
        \<and> staggered_thickness D m i j = (He, Hw, Hn, Hs)"
  then have H: "0 \<le> vH m i j" "0 \<le> vH m (i + 1) j" "0 \<le> vH m (i - 1) j"
    "0 \<le> vH m i (j + 1)" "0 \<le> vH m i (j - 1)" by simp_all
  have f: "0 < fv_at D m i' j' \<and> fv_at D m i' j' \<le> 1" for i' j'
    unfolding fv_at_def by (rule fofv_bounds)
  from a have sp: "do_superpose (config m)" "vMask m i j = MASK_DRAGGING_SHEET"
    and st: "staggered_thickness D m i j = (He, Hw, Hn, Hs)" by simp_all
  from st have e: "He = 0.5 * (fv_at D m i j * vH m i j + fv_at D m (i + 1) j * vH m (i + 1) j)"
    "Hw = 0.5 * (fv_at D m (i - 1) j * vH m (i - 1) j + fv_at D m i j * vH m i j)"
    "Hn = 0.5 * (fv_at D m i j * vH m i j + fv_at D m i (j + 1) * vH m i (j + 1))"
    "Hs = 0.5 * (fv_at D m i (j - 1) * vH m i (j - 1) + fv_at D m i j * vH m i j)"
    by (auto simp: staggered_thickness_def Let_def sp)
  show "0 \<le> He" "He \<le> (vH m i j + vH m (i + 1) j) / 2"
    unfolding e using blend_face[OF f f H(1) H(2)] by simp_all
  show "0 \<le> Hw" "Hw \<le> (vH m (i - 1) j + vH m i j) / 2"
    unfolding e using blend_face[OF f f H(3) H(1)] by simp_all
  show "0 \<le> Hn" "Hn \<le> (vH m i j + vH m i (j + 1)) / 2"
    unfolding e using blend_face[OF f f H(1) H(4)] by simp_all
  show "0 \<le> Hs" "Hs \<le> (vH m i (j - 1) + vH m i j) / 2"
    unfolding e using blend_face[OF f f H(5) H(1)] by simp_all
qed

theorem C10_blend_factor_witness:
  "secpera example_declarations \<noteq> 0
   \<and> fofv example_declarations 0 0 = 1
   \<and> 0 \<le> vH example_model 0 0 \<and> 0 \<le> vH example_model 1 0 \<and> 0 \<le> vH example_model (- 1) 0
   \<and> 0 \<le> vH example_model 0 1 \<and> 0 \<le> vH example_model 0 (- 1)
   \<and> (\<exists>He Hw Hn Hs.
         staggered_thickness example_declarations
           (example_model\<lparr>config := example_config\<lparr>do_superpose := True\<rparr>,
              vMask := (\<lambda>i j. MASK_DRAGGING_SHEET),
              vubarSSA := (\<lambda>i j. if i = 1 then 1 else 0)\<rparr>) 0 0 = (He, Hw, Hn, Hs)
         \<and> 0 \<le> He \<and> He \<le> 100 \<and> Hw = 100 \<and> Hn = 100 \<and> Hs = 100)"
proof -
  let ?D = example_declarations
  let ?m = "example_model\<lparr>config := example_config\<lparr>do_superpose := True\<rparr>,
              vMask := (\<lambda>i j. MASK_DRAGGING_SHEET),
              vubarSSA := (\<lambda>i j. if i = 1 then 1 else 0)\<rparr>"
  obtain He Hw Hn Hs where st: "staggered_thickness ?D ?m 0 0 = (He, Hw, Hn, Hs)"
    by (cases "staggered_thickness ?D ?m 0 0") blast
  have s: "secpera ?D \<noteq> 0" by (simp add: example_declarations_def)
  have h: "do_superpose (config ?m) \<and> vMask ?m 0 0 = MASK_DRAGGING_SHEET
        \<and> 0 \<le> vH ?m 0 0 \<and> 0 \<le> vH ?m (0 + 1) 0 \<and> 0 \<le> vH ?m (0 - 1) 0
        \<and> 0 \<le> vH ?m 0 (0 + 1) \<and> 0 \<le> vH ?m 0 (0 - 1)
        \<and> staggered_thickness ?D ?m 0 0 = (He, Hw, Hn, Hs)"
    using st by (simp add: example_model_def example_config_def)
  note c10 = C10_blend_factor[of ?D 0 0 ?m 0 0 He Hw Hn Hs]
  from c10 have f0: "fofv ?D 0 0 = 1" by blast
  from c10 h have b: "0 \<le> He" "He \<le> (vH ?m 0 0 + vH ?m (0 + 1) 0) / 2" by blast+
  then have b': "He \<le> 100" by (simp add: example_model_def)
  have fv0: "fv_at ?D ?m i j = 1" if "i \<noteq> 1" for i j
    using that f0 by (simp add: fv_at_def example_model_def)
  have cfg: "do_superpose (config ?m)" "vMask ?m 0 0 = MASK_DRAGGING_SHEET"
    by (simp_all add: example_config_def)
  have H100: "vH ?m i j = 100" for i j by (simp add: example_model_def)
  have "staggered_thickness ?D ?m 0 0
      = (0.5 * (100 + fv_at ?D ?m 1 0 * 100), 100, 100, 100)"
    unfolding staggered_thickness_def Let_def if_P[OF conjI[OF cfg]] H100
    by (simp add: fv0)
  with st have r: "Hw = 100" "Hn = 100" "Hs = 100" by simp_all
  have p: "0 \<le> vH example_model 0 0 \<and> 0 \<le> vH example_model 1 0
     \<and> 0 \<le> vH example_model (- 1) 0
     \<and> 0 \<le> vH example_model 0 1 \<and> 0 \<le> vH example_model 0 (- 1)"
    by (simp add: example_model_def)
  from s f0 p st b(1) b' r show ?thesis by blast
qed

end
